theory Spec2Isabelle
  imports Main
begin

section \<open>JavaScript strings and regular expressions\<close>

text \<open>
  Strings are lists of 8-bit characters. The character classes below are the ones the
  regular expressions of the controllers and of the user schema use: \<open>\d\<close> is
  \<open>[0-9]\<close>, \<open>[1-9]\<close>, and \<open>\w\<close> is \<open>[A-Za-z0-9_]\<close>. On these strings \<open>trim\<close> removes
  the white space at both ends (tab, line feed, vertical tab, form feed, carriage return,
  space and the no-break space 0xA0) and \<open>toLowerCase\<close> maps the capital letters, \<open>A\<close> to
  \<open>Z\<close> and the Latin-1 capitals 0xC0 to 0xDE (0xD7, the multiplication sign, is no letter),
  to their small letters.
\<close>

definition is_digit :: "char \<Rightarrow> bool" where
  "is_digit c = (c \<in> set ''0123456789'')"

definition is_nonzero_digit :: "char \<Rightarrow> bool" where
  "is_nonzero_digit c = (c \<in> set ''123456789'')"

definition is_word :: "char \<Rightarrow> bool" where
  "is_word c = (c \<in> set ''abcdefghijklmnopqrstuvwxyzABCDEFGHIJKLMNOPQRSTUVWXYZ0123456789_'')"

definition is_space :: "char \<Rightarrow> bool" where
  "is_space c = (c \<in> set [CHR 0x09, CHR 0x0A, CHR 0x0B, CHR 0x0C, CHR 0x0D, CHR '' '', CHR 0xA0])"

definition is_line_terminator :: "char \<Rightarrow> bool" where
  "is_line_terminator c = (c \<in> set [CHR 0x0A, CHR 0x0D])"

text \<open>\<open>String.prototype.trim\<close>, \<open>toLowerCase\<close> and \<open>startsWith\<close>.\<close>

definition trim :: "string \<Rightarrow> string" where
  "trim s = rev (dropWhile is_space (rev (dropWhile is_space s)))"

definition upper_case_letters :: string where
  "upper_case_letters =
     ''ABCDEFGHIJKLMNOPQRSTUVWXYZ'' @
       [CHR 0xC0, CHR 0xC1, CHR 0xC2, CHR 0xC3, CHR 0xC4, CHR 0xC5, CHR 0xC6, CHR 0xC7,
        CHR 0xC8, CHR 0xC9, CHR 0xCA, CHR 0xCB, CHR 0xCC, CHR 0xCD, CHR 0xCE, CHR 0xCF,
        CHR 0xD0, CHR 0xD1, CHR 0xD2, CHR 0xD3, CHR 0xD4, CHR 0xD5, CHR 0xD6, CHR 0xD8,
        CHR 0xD9, CHR 0xDA, CHR 0xDB, CHR 0xDC, CHR 0xDD, CHR 0xDE]"

definition lower_case_letters :: string where
  "lower_case_letters =
     ''abcdefghijklmnopqrstuvwxyz'' @
       [CHR 0xE0, CHR 0xE1, CHR 0xE2, CHR 0xE3, CHR 0xE4, CHR 0xE5, CHR 0xE6, CHR 0xE7,
        CHR 0xE8, CHR 0xE9, CHR 0xEA, CHR 0xEB, CHR 0xEC, CHR 0xED, CHR 0xEE, CHR 0xEF,
        CHR 0xF0, CHR 0xF1, CHR 0xF2, CHR 0xF3, CHR 0xF4, CHR 0xF5, CHR 0xF6, CHR 0xF8,
        CHR 0xF9, CHR 0xFA, CHR 0xFB, CHR 0xFC, CHR 0xFD, CHR 0xFE]"

definition lower_char :: "char \<Rightarrow> char" where
  "lower_char c =
     (case map_of (zip upper_case_letters lower_case_letters) c of
        Some l \<Rightarrow> l
      | None \<Rightarrow> c)"

definition toLowerCase :: "string \<Rightarrow> string" where
  "toLowerCase s = map lower_char s"

definition startsWith :: "string \<Rightarrow> string \<Rightarrow> bool" where
  "startsWith s p = (take (length p) s = p)"

text \<open>
  Regular expressions. Every expression of the source is anchored at both ends
  (\<open>^ ... $\<close>, no flags), so \<open>re.test(s)\<close> asks whether the whole string is in the
  language of the expression; \<open>test\<close> decides it by derivatives.
\<close>

datatype rexp =
    Fail
  | Emp
  | Cls "char \<Rightarrow> bool"
  | Alt rexp rexp
  | Seq rexp rexp
  | Many rexp

text \<open>\<open>r?\<close>, \<open>r+\<close>, \<open>r{n}\<close>, \<open>r{0,n}\<close> and \<open>r{m,n}\<close>.\<close>

definition optional :: "rexp \<Rightarrow> rexp" where
  "optional r = Alt r Emp"

definition one_or_more :: "rexp \<Rightarrow> rexp" where
  "one_or_more r = Seq r (Many r)"

primrec rep_exactly :: "nat \<Rightarrow> rexp \<Rightarrow> rexp" where
  "rep_exactly 0 r = Emp"
| "rep_exactly (Suc n) r = Seq r (rep_exactly n r)"

primrec rep_upto :: "nat \<Rightarrow> rexp \<Rightarrow> rexp" where
  "rep_upto 0 r = Emp"
| "rep_upto (Suc n) r = Alt Emp (Seq r (rep_upto n r))"

definition rep_between :: "nat \<Rightarrow> nat \<Rightarrow> rexp \<Rightarrow> rexp" where
  "rep_between m n r = Seq (rep_exactly m r) (rep_upto (n - m) r)"

primrec empty_ok :: "rexp \<Rightarrow> bool" where
  "empty_ok Fail = False"
| "empty_ok Emp = True"
| "empty_ok (Cls P) = False"
| "empty_ok (Alt r s) = (empty_ok r \<or> empty_ok s)"
| "empty_ok (Seq r s) = (empty_ok r \<and> empty_ok s)"
| "empty_ok (Many r) = True"

primrec after :: "char \<Rightarrow> rexp \<Rightarrow> rexp" where
  "after c Fail = Fail"
| "after c Emp = Fail"
| "after c (Cls P) = (if P c then Emp else Fail)"
| "after c (Alt r s) = Alt (after c r) (after c s)"
| "after c (Seq r s) =
     (if empty_ok r then Alt (Seq (after c r) s) (after c s) else Seq (after c r) s)"
| "after c (Many r) = Seq (after c r) (Many r)"

primrec test :: "rexp \<Rightarrow> string \<Rightarrow> bool" where
  "test r [] = empty_ok r"
| "test r (c # cs) = test (after c r) cs"

text \<open>The language of an expression, for the proofs about \<open>test\<close>.\<close>

definition conc :: "string set \<Rightarrow> string set \<Rightarrow> string set" where
  "conc A B = {u @ v | u v. u \<in> A \<and> v \<in> B}"

inductive_set star :: "string set \<Rightarrow> string set" for A :: "string set" where
  star_nil: "[] \<in> star A"
| star_app: "u \<in> A \<Longrightarrow> v \<in> star A \<Longrightarrow> u @ v \<in> star A"

primrec lang :: "rexp \<Rightarrow> string set" where
  "lang Fail = {}"
| "lang Emp = {[]}"
| "lang (Cls P) = {[c] | c. P c}"
| "lang (Alt r s) = lang r \<union> lang s"
| "lang (Seq r s) = conc (lang r) (lang s)"
| "lang (Many r) = star (lang r)"

text \<open>
  The expressions of the source.
  \<^item> \<open>/^\+[1-9]\d{1,14}$/\<close>: the controllers' phone check (authController.js lines 95 and
    338, the profile edit) and the schema's phone validator and \<open>isValidPhoneNumber\<close>;
  \<^item> \<open>/^[\+]?[1-9][\d]{0,15}$/\<close>: the schema's \<open>match\<close> on \<open>phoneNumber\<close>;
  \<^item> \<open>/^\w+([.-]?\w+)*@\w+([.-]?\w+)*(\.\w{2,3})+$/\<close>: the schema's \<open>match\<close> on \<open>email\<close>.
\<close>

definition phone_re :: rexp where
  "phone_re =
     Seq (Cls (\<lambda>c. c = CHR ''+''))
    (Seq (Cls is_nonzero_digit) (rep_between 1 14 (Cls is_digit)))"

definition schema_phone_re :: rexp where
  "schema_phone_re =
     Seq (optional (Cls (\<lambda>c. c = CHR ''+'')))
    (Seq (Cls is_nonzero_digit) (rep_between 0 15 (Cls is_digit)))"

definition email_re :: rexp where
  "email_re =
     Seq (one_or_more (Cls is_word))
    (Seq (Many (Seq (optional (Cls (\<lambda>c. c = CHR ''.'' \<or> c = CHR ''-''))) (one_or_more (Cls is_word))))
    (Seq (Cls (\<lambda>c. c = CHR ''@''))
    (Seq (one_or_more (Cls is_word))
    (Seq (Many (Seq (optional (Cls (\<lambda>c. c = CHR ''.'' \<or> c = CHR ''-''))) (one_or_more (Cls is_word))))
         (one_or_more (Seq (Cls (\<lambda>c. c = CHR ''.'')) (rep_between 2 3 (Cls is_word))))))))"

text \<open>
  The shape the specification words for a phone number: \<open>+\<close>, then a nonzero digit, then 1
  to 14 more digits. It is compared with \<open>phone_re\<close> below.
\<close>

definition e164_shape :: "string \<Rightarrow> bool" where
  "e164_shape s =
     (case s of
        p # d # ds \<Rightarrow> p = CHR ''+'' \<and> is_nonzero_digit d \<and>
                      1 \<le> length ds \<and> length ds \<le> 14 \<and> list_all is_digit ds
      | _ \<Rightarrow> False)"

text \<open>Decimal rendering of a count, as a template literal prints a number.\<close>

fun show_nat :: "nat \<Rightarrow> string" where
  "show_nat n =
     (if n < 10 then [''0123456789'' ! n]
      else show_nat (n div 10) @ [''0123456789'' ! (n mod 10)])"

section \<open>Data model\<close>

text \<open>
  Errors a handler's \<open>try\<close> block can throw, as values. \<open>ValidationError\<close> carries the
  \<open>errors\<close> object of a Mongoose validation failure: one entry per failing path, the path and
  its message. The others are the driver's duplicate-key error (code 11000), a failed cast of
  an id to an ObjectId, bcryptjs called without a string, jsonwebtoken called without a
  secret, and \<open>fs.unlinkSync\<close> of a missing path.
\<close>

datatype js_error =
    ValidationError "(string \<times> string) list"
  | MongoDuplicateKey
  | CastError string
  | BcryptIllegalArguments
  | JwtSecretMissing
  | ENOENT string

text \<open>
  A signed token, kept structured: the payload given to \<open>jwt.sign\<close>, the \<open>iat\<close> and \<open>exp\<close>
  claims the library adds (seconds since the epoch) and the key it was signed with.
\<close>

record token =
  tok_payload :: "(string \<times> string) list"
  tok_iat :: int
  tok_exp :: int
  tok_key :: string

datatype jval =
    JNull
  | JBool bool
  | JNum int
  | JStr string
  | JArr "jval list"
  | JObj "(string \<times> jval) list"
  | JTok token
  | JErrMsg js_error

text \<open>\<open>res.status(n).json(obj)\<close>.\<close>

record response =
  status :: nat
  json :: jval

definition respond :: "nat \<Rightarrow> (string \<times> jval) list \<Rightarrow> response" where
  "respond n kvs = \<lparr>status = n, json = JObj kvs\<rparr>"

definition field :: "string \<Rightarrow> jval \<Rightarrow> jval option" where
  "field k v = (case v of JObj kvs \<Rightarrow> map_of kvs k | _ \<Rightarrow> None)"

definition delete_key :: "string \<Rightarrow> (string \<times> jval) list \<Rightarrow> (string \<times> jval) list" where
  "delete_key k kvs = filter (\<lambda>kv. fst kv \<noteq> k) kvs"

text \<open>The user document of the schema (models/User).\<close>

record address =
  street :: "string option"
  city :: "string option"
  state :: "string option"
  country :: "string option"
  zipCode :: "string option"

record socialLinks =
  facebook :: "string option"
  twitter :: "string option"
  linkedin :: "string option"
  instagram :: "string option"

record user =
  uid :: string
  firstName :: "string option"
  lastName :: "string option"
  email :: "string option"
  password :: "string option"
  dateOfBirth :: "int option"
  phoneNumber :: "string option"
  gender :: string
  address :: address
  profilePicture :: "string option"
  bio :: "string option"
  isActive :: bool
  isVerified :: bool
  role :: string
  socialLinks :: socialLinks
  createdAt :: int
  updatedAt :: int
  lastLoginAt :: "int option"

text \<open>
  What lies outside the handlers: the process environment, the clock, the media host, the
  password hasher and the id the store gives a new document. \<open>cloudinary_upload\<close> is
  \<open>cloudinary.uploader.upload\<close>: \<open>Inr\<close> the \<open>url\<close> of the result it resolves with, \<open>Inl\<close> the
  message of the error it rejects with. \<open>bcrypt_hash p\<close> is \<open>bcrypt.hash(p, await bcrypt.genSalt(10))\<close>.
\<close>

record env =
  JWT_SECRET :: "string option"
  ADMIN_EMAIL :: "string option"
  ADMIN_PASSWORD :: "string option"
  now :: int
  cloudinary_upload :: "string \<Rightarrow> string + string"
  bcrypt_hash :: "string \<Rightarrow> string"
  bcrypt_compare :: "string \<Rightarrow> string \<Rightarrow> bool"
  new_object_id :: string

text \<open>The state the handlers change: the user collection and the files on disk.\<close>

record world =
  users :: "user list"
  files :: "string set"

text \<open>
  A request: the JSON body (every field a handler destructures, \<open>None\<close> when it is
  \<open>undefined\<close>, each of the type the schema expects: strings, \<open>dateOfBirth\<close> already a time
  in milliseconds, \<open>isActive\<close> a boolean, \<open>userIds\<close> \<open>None\<close> also when it is not an array),
  the path of the uploaded temporary file (\<open>req.file.path\<close>), the \<open>:id\<close> route parameter and
  the principal the authentication middleware attached (\<open>req.user._id\<close> as a string, and
  \<open>req.user.userId\<close>, which two handlers read). The middleware itself is not part of the
  model: a handler is verified for every principal.
\<close>

record body =
  b_firstName :: "string option"
  b_lastName :: "string option"
  b_email :: "string option"
  b_password :: "string option"
  b_dateOfBirth :: "int option"
  b_phoneNumber :: "string option"
  b_gender :: "string option"
  b_address :: "address option"
  b_bio :: "string option"
  b_socialLinks :: "socialLinks option"
  b_isActive :: "bool option"
  b_operation :: "string option"
  b_userIds :: "string list option"

record principal =
  p_id :: string
  p_userId :: "string option"

record request =
  req_body :: body
  req_file :: "string option"
  req_id :: string
  req_user :: principal

text \<open>\<open>!v\<close> for a value that is a string or \<open>undefined\<close>.\<close>

definition falsy :: "string option \<Rightarrow> bool" where
  "falsy v = (v = None \<or> v = Some [])"

section \<open>Token service\<close>

text \<open>
  \<open>jwt.sign(payload, secret, {expiresIn})\<close>: throws when the secret is missing or empty;
  otherwise the token carries the payload, \<open>iat\<close> (the clock in seconds) and
  \<open>exp = iat + expiresIn\<close>. \<open>'30d'\<close> is \<open>30 * 24 * 60 * 60\<close> seconds and \<open>'24h'\<close> is
  \<open>24 * 60 * 60\<close>.
\<close>

definition jwt_sign ::
  "(string \<times> string) list \<Rightarrow> string option \<Rightarrow> int \<Rightarrow> int \<Rightarrow> js_error + token" where
  "jwt_sign payload secret expiresIn now_ms =
     (if falsy secret then Inl JwtSecretMissing
      else Inr \<lparr>tok_payload = payload, tok_iat = now_ms div 1000,
                tok_exp = now_ms div 1000 + expiresIn,
                tok_key = (case secret of Some k \<Rightarrow> k | None \<Rightarrow> [])\<rparr>)"

definition generateToken :: "env \<Rightarrow> string \<Rightarrow> js_error + token" where
  "generateToken e userId =
     jwt_sign [(''userId'', userId)] (JWT_SECRET e) (30 * 24 * 60 * 60) (now e)"

section \<open>The user schema\<close>

text \<open>
  Serialisation: \<open>toObject\<close> lists the fields a document has (an \<open>undefined\<close> field is left
  out, a \<open>null\<close> one is printed, and a nested object none of whose fields is set is left out
  too), and \<open>getPublicProfile\<close> deletes \<open>password\<close> and \<open>__v\<close>.
\<close>

definition opt_str :: "string \<Rightarrow> string option \<Rightarrow> (string \<times> jval) list" where
  "opt_str k v = (case v of None \<Rightarrow> [] | Some s \<Rightarrow> [(k, JStr s)])"

definition opt_num :: "string \<Rightarrow> int option \<Rightarrow> (string \<times> jval) list" where
  "opt_num k v = (case v of None \<Rightarrow> [] | Some n \<Rightarrow> [(k, JNum n)])"

definition nullable_str :: "string option \<Rightarrow> jval" where
  "nullable_str v = (case v of None \<Rightarrow> JNull | Some s \<Rightarrow> JStr s)"

definition nullable_num :: "int option \<Rightarrow> jval" where
  "nullable_num v = (case v of None \<Rightarrow> JNull | Some n \<Rightarrow> JNum n)"

definition address_json :: "address \<Rightarrow> jval" where
  "address_json a =
     JObj (opt_str ''street'' (street a) @ opt_str ''city'' (city a) @ opt_str ''state'' (state a)
           @ opt_str ''country'' (country a) @ opt_str ''zipCode'' (zipCode a))"

definition socialLinks_json :: "socialLinks \<Rightarrow> jval" where
  "socialLinks_json l =
     JObj (opt_str ''facebook'' (facebook l) @ opt_str ''twitter'' (twitter l)
           @ opt_str ''linkedin'' (linkedin l) @ opt_str ''instagram'' (instagram l))"

definition minimized :: "string \<Rightarrow> jval \<Rightarrow> (string \<times> jval) list" where
  "minimized k v = (if v = JObj [] then [] else [(k, v)])"

definition toObject :: "user \<Rightarrow> (string \<times> jval) list" where
  "toObject u =
     [(''_id'', JStr (uid u))]
     @ opt_str ''firstName'' (firstName u)
     @ opt_str ''lastName'' (lastName u)
     @ opt_str ''email'' (email u)
     @ opt_str ''password'' (password u)
     @ opt_num ''dateOfBirth'' (dateOfBirth u)
     @ opt_str ''phoneNumber'' (phoneNumber u)
     @ [(''gender'', JStr (gender u))]
     @ minimized ''address'' (address_json (address u))
     @ [(''profilePicture'', nullable_str (profilePicture u))]
     @ opt_str ''bio'' (bio u)
     @ [(''isActive'', JBool (isActive u)),
        (''isVerified'', JBool (isVerified u)),
        (''role'', JStr (role u))]
     @ minimized ''socialLinks'' (socialLinks_json (socialLinks u))
     @ [(''createdAt'', JNum (createdAt u)),
        (''updatedAt'', JNum (updatedAt u)),
        (''lastLoginAt'', nullable_num (lastLoginAt u)),
        (''__v'', JNum 0)]"

definition getPublicProfile :: "user \<Rightarrow> jval" where
  "getPublicProfile u = JObj (delete_key ''__v'' (delete_key ''password'' (toObject u)))"

text \<open>A document read with \<open>.select('-password')\<close>.\<close>

definition select_without_password :: "user \<Rightarrow> jval" where
  "select_without_password u = JObj (delete_key ''password'' (toObject u))"

text \<open>
  The phone helpers of the schema. \<open>getCountryCode\<close> is the capture of \<open>/^\+(\d{1,4})/\<close>;
  \<open>getPhoneNumberWithoutCountryCode\<close> is the capture of \<open>/^\+\d{1,4}(.+)/\<close>, where the digit
  run gives characters back until \<open>.+\<close> has one to take, and the number itself when nothing
  matches.
\<close>

definition getCountryCode :: "user \<Rightarrow> string option" where
  "getCountryCode u =
     (if falsy (phoneNumber u) then None
      else (case phoneNumber u of
              Some (c # rest) \<Rightarrow>
                (if c = CHR ''+'' \<and> takeWhile is_digit (take 4 rest) \<noteq> []
                 then Some (takeWhile is_digit (take 4 rest)) else None)
            | _ \<Rightarrow> None))"

primrec capture_after_digits :: "nat \<Rightarrow> string \<Rightarrow> string option" where
  "capture_after_digits 0 rest = None"
| "capture_after_digits (Suc k) rest =
     (if takeWhile (\<lambda>c. \<not> is_line_terminator c) (drop (Suc k) rest) \<noteq> []
      then Some (takeWhile (\<lambda>c. \<not> is_line_terminator c) (drop (Suc k) rest))
      else capture_after_digits k rest)"

definition getPhoneNumberWithoutCountryCode :: "user \<Rightarrow> string option" where
  "getPhoneNumberWithoutCountryCode u =
     (if falsy (phoneNumber u) then None
      else (case phoneNumber u of
              Some (c # rest) \<Rightarrow>
                (if c = CHR ''+'' then
                   (case capture_after_digits (length (takeWhile is_digit (take 4 rest))) rest of
                      Some m \<Rightarrow> Some m
                    | None \<Rightarrow> phoneNumber u)
                 else phoneNumber u)
            | _ \<Rightarrow> None))"

definition getFormattedPhoneNumber :: "user \<Rightarrow> string option" where
  "getFormattedPhoneNumber u = (if falsy (phoneNumber u) then None else phoneNumber u)"

definition isValidPhoneNumber :: "user \<Rightarrow> bool" where
  "isValidPhoneNumber u =
     (case phoneNumber u of None \<Rightarrow> False | Some p \<Rightarrow> p \<noteq> [] \<and> test phone_re p)"

definition phoneDetails :: "user \<Rightarrow> jval" where
  "phoneDetails u =
     JObj (opt_str ''fullNumber'' (phoneNumber u)
           @ [(''countryCode'', nullable_str (getCountryCode u)),
              (''numberWithoutCountryCode'', nullable_str (getPhoneNumberWithoutCountryCode u)),
              (''isValid'', JBool (isValidPhoneNumber u)),
              (''formattedNumber'', nullable_str (getFormattedPhoneNumber u))])"

text \<open>
  Validators, as Mongoose runs them: each returns the message of a failure. \<open>required\<close>
  fails on \<open>undefined\<close> and on the empty string; \<open>maxlength\<close>, \<open>minlength\<close>, \<open>match\<close> and
  \<open>enum\<close> pass on \<open>undefined\<close>, and \<open>match\<close> passes on the empty string too. A path reports
  the first of its validators that fails, \<open>required\<close> first.
\<close>

definition required :: "string \<Rightarrow> string option \<Rightarrow> string option" where
  "required msg v = (if falsy v then Some msg else None)"

definition maxlength :: "nat \<Rightarrow> string \<Rightarrow> string option \<Rightarrow> string option" where
  "maxlength n msg v =
     (case v of None \<Rightarrow> None | Some s \<Rightarrow> if length s \<le> n then None else Some msg)"

definition minlength :: "nat \<Rightarrow> string \<Rightarrow> string option \<Rightarrow> string option" where
  "minlength n msg v =
     (case v of None \<Rightarrow> None | Some s \<Rightarrow> if n \<le> length s then None else Some msg)"

definition match :: "rexp \<Rightarrow> string \<Rightarrow> string option \<Rightarrow> string option" where
  "match re msg v =
     (case v of None \<Rightarrow> None
      | Some s \<Rightarrow> if s = [] \<or> test re s then None else Some msg)"

definition enum :: "string list \<Rightarrow> string \<Rightarrow> string \<Rightarrow> string option" where
  "enum values path v =
     (if v \<in> set values then None
      else Some ([CHR 0x60] @ v @ [CHR 0x60] @ '' is not a valid enum value for path ''
                 @ [CHR 0x60] @ path @ [CHR 0x60] @ ''.''))"

definition first_failure :: "string option list \<Rightarrow> string option" where
  "first_failure rs = (case filter (\<lambda>r. r \<noteq> None) rs of [] \<Rightarrow> None | r # _ \<Rightarrow> r)"

definition phone_validator :: "string option \<Rightarrow> string option" where
  "phone_validator v =
     (if falsy v then None
      else (case v of
              Some p \<Rightarrow>
                (if test phone_re p then None
                 else Some ''Phone number must start with + followed by country code and number (e.g., +911234567890)'')
            | None \<Rightarrow> None))"

definition dateOfBirth_validator :: "int \<Rightarrow> int option \<Rightarrow> string option" where
  "dateOfBirth_validator now_ms v =
     (case v of None \<Rightarrow> None
      | Some d \<Rightarrow> if d \<le> now_ms then None else Some ''Date of birth cannot be in the future'')"

text \<open>The paths of \<open>userSchema\<close> that carry a validator, in the order the schema declares them.\<close>

definition schema_paths :: "int \<Rightarrow> (string \<times> (user \<Rightarrow> string option)) list" where
  "schema_paths now_ms =
     [(''firstName'', \<lambda>u. first_failure
         [required ''First name is required'' (firstName u),
          maxlength 50 ''First name cannot exceed 50 characters'' (firstName u)]),
      (''lastName'', \<lambda>u. first_failure
         [required ''Last name is required'' (lastName u),
          maxlength 50 ''Last name cannot exceed 50 characters'' (lastName u)]),
      (''email'', \<lambda>u. first_failure
         [required ''Email is required'' (email u),
          match email_re ''Please enter a valid email'' (email u)]),
      (''password'', \<lambda>u. first_failure
         [required ''Password is required'' (password u),
          minlength 6 ''Password must be at least 6 characters'' (password u)]),
      (''dateOfBirth'', \<lambda>u. dateOfBirth_validator now_ms (dateOfBirth u)),
      (''phoneNumber'', \<lambda>u. first_failure
         [match schema_phone_re ''Please enter a valid phone number with country code'' (phoneNumber u),
          phone_validator (phoneNumber u)]),
      (''gender'', \<lambda>u. enum [''male'', ''female'', ''other'', ''prefer-not-to-say''] ''gender'' (gender u)),
      (''bio'', \<lambda>u. maxlength 500 ''Bio cannot exceed 500 characters'' (bio u)),
      (''role'', \<lambda>u. enum [''user'', ''admin'', ''moderator''] ''role'' (role u))]"

text \<open>
  \<open>invalid_paths\<close> are the paths whose validator fails on a document; \<open>validate\<close> builds the
  \<open>errors\<close> object of the \<open>ValidationError\<close>: for each of them, its message.
\<close>

definition invalid_paths :: "int \<Rightarrow> user \<Rightarrow> string list" where
  "invalid_paths now_ms u =
     map fst (filter (\<lambda>pf. snd pf u \<noteq> None) (schema_paths now_ms))"

definition validate :: "int \<Rightarrow> user \<Rightarrow> (string \<times> string) list" where
  "validate now_ms u =
     concat (map (\<lambda>pf. case snd pf u of None \<Rightarrow> [] | Some m \<Rightarrow> [(fst pf, m)])
              (schema_paths now_ms))"

text \<open>
  Update validators (\<open>runValidators: true\<close>) run on the paths the update sets. The messages
  are listed here in the order of the schema; the order in which Mongoose lists them is not
  fixed by the source.
\<close>

definition validate_update :: "int \<Rightarrow> string list \<Rightarrow> user \<Rightarrow> (string \<times> string) list" where
  "validate_update now_ms touched u = filter (\<lambda>pm. fst pm \<in> set touched) (validate now_ms u)"

section \<open>The store, the file system and the media host\<close>

text \<open>
  Mongoose casts an id to an ObjectId before it queries: a string of 24 hexadecimal digits is
  an id (read without regard to case, printed in lower case), anything else throws a
  \<open>CastError\<close>. (Older drivers also take any string of 12 characters for an id; no id below
  has 12.)
\<close>

definition is_hex :: "char \<Rightarrow> bool" where
  "is_hex c = (c \<in> set ''0123456789abcdefABCDEF'')"

definition isValidObjectId :: "string \<Rightarrow> bool" where
  "isValidObjectId s = (length s = 24 \<and> list_all is_hex s)"

definition castObjectId :: "string \<Rightarrow> js_error + string" where
  "castObjectId s = (if isValidObjectId s then Inr (toLowerCase s) else Inl (CastError s))"

definition findById :: "user list \<Rightarrow> string \<Rightarrow> js_error + user option" where
  "findById us i =
     (case castObjectId i of
        Inl err \<Rightarrow> Inl err
      | Inr oid \<Rightarrow> Inr (find (\<lambda>u. uid u = oid) us))"

text \<open>
  \<open>User.findOne({ email })\<close>: the filter is cast through the schema path, which trims and
  lower-cases it; no stored document lacks an email, so an \<open>undefined\<close> filter finds none.
\<close>

definition findOne_email :: "user list \<Rightarrow> string option \<Rightarrow> user option" where
  "findOne_email us e =
     (case e of
        None \<Rightarrow> None
      | Some a \<Rightarrow> find (\<lambda>u. email u = Some (toLowerCase (trim a))) us)"

definition findOne_phoneNumber :: "user list \<Rightarrow> string \<Rightarrow> user option" where
  "findOne_phoneNumber us p = find (\<lambda>u. phoneNumber u = Some p) us"

text \<open>\<open>User.findOne({ phoneNumber, _id: { $ne: id } })\<close>.\<close>

definition findOne_phoneNumber_ne ::
  "user list \<Rightarrow> string \<Rightarrow> string option \<Rightarrow> js_error + user option" where
  "findOne_phoneNumber_ne us p i =
     (case i of
        None \<Rightarrow> Inr (find (\<lambda>u. phoneNumber u = Some p) us)
      | Some j \<Rightarrow>
          (case castObjectId j of
             Inl err \<Rightarrow> Inl err
           | Inr oid \<Rightarrow> Inr (find (\<lambda>u. phoneNumber u = Some p \<and> uid u \<noteq> oid) us)))"

definition blank_address :: address where
  "blank_address = \<lparr>street = None, city = None, state = None, country = None, zipCode = None\<rparr>"

definition blank_socialLinks :: socialLinks where
  "blank_socialLinks = \<lparr>facebook = None, twitter = None, linkedin = None, instagram = None\<rparr>"

definition blank_user :: user where
  "blank_user =
     \<lparr>uid = [], firstName = None, lastName = None, email = None, password = None,
      dateOfBirth = None, phoneNumber = None, gender = ''prefer-not-to-say'',
      address = blank_address, profilePicture = None, bio = None, isActive = True,
      isVerified = False, role = ''user'', socialLinks = blank_socialLinks,
      createdAt = 0, updatedAt = 0, lastLoginAt = None\<rparr>"

text \<open>
  \<open>User.findByIdAndUpdate(id, update, { new: true, runValidators })\<close>. The update is the
  function \<open>upd\<close> on documents and \<open>touched\<close> lists the validated paths it sets (empty without
  \<open>runValidators\<close>). The id is cast, the update validators run on the values the update
  sets, then the document is changed, its \<open>updatedAt\<close> stamped, and returned. An
  \<open>undefined\<close> id finds no document.
\<close>

definition findByIdAndUpdate ::
  "env \<Rightarrow> user list \<Rightarrow> string option \<Rightarrow> string list \<Rightarrow> (user \<Rightarrow> user)
     \<Rightarrow> js_error + (user option \<times> user list)" where
  "findByIdAndUpdate e us i touched upd =
     (case (case i of None \<Rightarrow> Inr None | Some j \<Rightarrow> map_sum id Some (castObjectId j)) of
        Inl err \<Rightarrow> Inl err
      | Inr oid \<Rightarrow>
          (if validate_update (now e) touched (upd blank_user) \<noteq> []
           then Inl (ValidationError (validate_update (now e) touched (upd blank_user)))
           else (case find (\<lambda>u. Some (uid u) = oid) us of
                   None \<Rightarrow> Inr (None, us)
                 | Some u \<Rightarrow>
                     Inr (Some ((upd u)\<lparr>updatedAt := now e\<rparr>),
                          map (\<lambda>v. if uid v = uid u then (upd u)\<lparr>updatedAt := now e\<rparr> else v) us))))"

text \<open>\<open>fs.existsSync\<close> and \<open>fs.unlinkSync\<close>.\<close>

definition existsSync :: "string \<Rightarrow> string set \<Rightarrow> bool" where
  "existsSync p fs = (p \<in> fs)"

definition unlinkSync :: "string \<Rightarrow> string set \<Rightarrow> js_error + string set" where
  "unlinkSync p fs = (if p \<in> fs then Inr (fs - {p}) else Inl (ENOENT p))"

text \<open>
  \<open>uploadToCloudinary\<close> (config/cloudinary): it catches the uploader's rejection, so it never
  throws; it returns \<open>{ success: true, url, ... }\<close> or \<open>{ success: false, error }\<close>. The
  object it builds is \<open>{ success: true, url: result.secure_url, public_id, ...result }\<close>: the
  spread comes last, so the \<open>url\<close> the handlers read is the result's own \<open>url\<close> property.
\<close>

datatype upload_result = UploadSuccess string | UploadFailure string

definition uploadToCloudinary :: "env \<Rightarrow> string \<Rightarrow> upload_result" where
  "uploadToCloudinary e file =
     (case cloudinary_upload e file of
        Inr url \<Rightarrow> UploadSuccess url
      | Inl message \<Rightarrow> UploadFailure message)"

section \<open>Handlers of the auth and user controllers\<close>

definition failure :: "nat \<Rightarrow> string \<Rightarrow> response" where
  "failure n msg = respond n [(''success'', JBool False), (''message'', JStr msg)]"

definition internal_error :: "js_error \<Rightarrow> response" where
  "internal_error error =
     respond 500 [(''success'', JBool False), (''message'', JStr ''Internal server error''),
                  (''error'', JErrMsg error)]"

definition validation_failed :: "(string \<times> string) list \<Rightarrow> response" where
  "validation_failed errors =
     respond 400 [(''success'', JBool False), (''message'', JStr ''Validation failed''),
                  (''errors'', JArr (map (\<lambda>err. JStr (snd err)) errors))]"

text \<open>
  The profile-picture block, which \<open>signup\<close> (lines 34 to 68), \<open>updateProfilePicture\<close> (422 to
  456) and \<open>editProfile\<close> repeat word for word: upload the temporary file; on a reported
  failure return 500; on success delete the local file. The \<open>catch\<close> runs only when
  something in the \<open>try\<close> throws, which here is the \<open>unlinkSync\<close> after a successful upload;
  it deletes the file if it exists and returns 500. The result is the response to return, or
  the URL to go on with, and the files on disk.
\<close>

definition cleanupLocalFile :: "string \<Rightarrow> string set \<Rightarrow> string set" where
  "cleanupLocalFile path fs = (if path \<noteq> [] \<and> existsSync path fs then fs - {path} else fs)"

definition profilePictureBlock ::
  "env \<Rightarrow> string \<Rightarrow> string set \<Rightarrow> (response + string) \<times> string set" where
  "profilePictureBlock e path fs =
     (case uploadToCloudinary e path of
        UploadFailure err \<Rightarrow> (Inl (failure 500 ''Failed to upload profile picture''), fs)
      | UploadSuccess url \<Rightarrow>
          (case unlinkSync path fs of
             Inr fs' \<Rightarrow> (Inr url, fs')
           | Inl uploadError \<Rightarrow>
               (Inl (failure 500 ''Failed to upload profile picture''), cleanupLocalFile path fs)))"

text \<open>
  The phone block, which \<open>signup\<close> (lines 84 to 100), \<open>updatePhoneNumber\<close> (327 to 343) and
  \<open>editProfile\<close> repeat word for word: \<open>replace(/[^\d+]/g, '')\<close> (\<open>strip_phone\<close>) keeps the
  digits and every \<open>+\<close>; then the two checks, each returning 400.
\<close>

definition strip_phone :: "string \<Rightarrow> string" where
  "strip_phone phone = filter (\<lambda>c. is_digit c \<or> c = CHR ''+'') phone"

definition processPhoneNumber :: "string \<Rightarrow> response + string" where
  "processPhoneNumber phone =
     (let processedPhoneNumber = strip_phone phone in
      if \<not> startsWith processedPhoneNumber ''+''
      then Inl (failure 400 ''Phone number must start with country code (e.g., +91 for India)'')
      else if \<not> test phone_re processedPhoneNumber
      then Inl (failure 400 ''Invalid phone number format. Please include country code (e.g., +911234567890)'')
      else Inr processedPhoneNumber)"

subsection \<open>signup\<close>

definition cast_address :: "address option \<Rightarrow> address" where
  "cast_address a =
     (case a of
        None \<Rightarrow> blank_address\<lparr>country := Some ''India''\<rparr>
      | Some x \<Rightarrow>
          \<lparr>street = map_option trim (street x), city = map_option trim (city x),
           state = map_option trim (state x),
           country = (case country x of None \<Rightarrow> Some ''India'' | Some c \<Rightarrow> Some (trim c)),
           zipCode = map_option trim (zipCode x)\<rparr>)"

text \<open>\<open>new User({...})\<close>: the schema's setters (\<open>trim\<close>, \<open>lowercase\<close>) and defaults applied.\<close>

definition new_User ::
  "env \<Rightarrow> body \<Rightarrow> string \<Rightarrow> string option \<Rightarrow> string option \<Rightarrow> user" where
  "new_User e b hashedPassword processedPhoneNumber profilePictureUrl =
     \<lparr>uid = new_object_id e,
      firstName = map_option trim (b_firstName b),
      lastName = map_option trim (b_lastName b),
      email = map_option (\<lambda>a. toLowerCase (trim a)) (b_email b),
      password = Some hashedPassword,
      dateOfBirth = b_dateOfBirth b,
      phoneNumber = processedPhoneNumber,
      gender = (case b_gender b of None \<Rightarrow> ''prefer-not-to-say'' | Some g \<Rightarrow> g),
      address = cast_address (b_address b),
      profilePicture = profilePictureUrl,
      bio = b_bio b,
      isActive = True,
      isVerified = False,
      role = ''user'',
      socialLinks = blank_socialLinks,
      createdAt = now e,
      updatedAt = now e,
      lastLoginAt = None\<rparr>"

text \<open>
  \<open>user.save()\<close> of a new document: validation, the \<open>pre('save')\<close> hook that stamps
  \<open>updatedAt\<close>, then the insert, which the unique index on \<open>email\<close> can refuse.
\<close>

definition save_new :: "env \<Rightarrow> user list \<Rightarrow> user \<Rightarrow> js_error + (user \<times> user list)" where
  "save_new e us u =
     (if validate (now e) u \<noteq> [] then Inl (ValidationError (validate (now e) u))
      else if find (\<lambda>v. email v = email u) us \<noteq> None then Inl MongoDuplicateKey
      else Inr (u\<lparr>updatedAt := now e\<rparr>, us @ [u\<lparr>updatedAt := now e\<rparr>]))"

text \<open>Lines 112 to 146: hash the password, create and save the user, sign a token, answer 201.\<close>

definition signup_create ::
  "env \<Rightarrow> world \<Rightarrow> body \<Rightarrow> string option \<Rightarrow> string option \<Rightarrow> (js_error + response) \<times> world" where
  "signup_create e w b processedPhoneNumber profilePictureUrl =
     (case b_password b of
        None \<Rightarrow> (Inl BcryptIllegalArguments, w)
      | Some pw \<Rightarrow>
          (case save_new e (users w)
                  (new_User e b (bcrypt_hash e pw) processedPhoneNumber profilePictureUrl) of
             Inl err \<Rightarrow> (Inl err, w)
           | Inr (savedUser, us') \<Rightarrow>
               (case generateToken e (uid savedUser) of
                  Inl err \<Rightarrow> (Inl err, w\<lparr>users := us'\<rparr>)
                | Inr token \<Rightarrow>
                    (Inr (respond 201
                       [(''success'', JBool True),
                        (''message'', JStr ''User registered successfully''),
                        (''data'', JObj [(''user'', getPublicProfile savedUser),
                                         (''token'', JTok token)])]),
                     w\<lparr>users := us'\<rparr>))))"

text \<open>Lines 71 to 110: the duplicate-email check and the phone block (skipped for a falsy phone).\<close>

definition signup_checks ::
  "env \<Rightarrow> world \<Rightarrow> body \<Rightarrow> string option \<Rightarrow> (js_error + response) \<times> world" where
  "signup_checks e w b profilePictureUrl =
     (if findOne_email (users w) (b_email b) \<noteq> None
      then (Inr (failure 400 ''User with this email already exists''), w)
      else (case b_phoneNumber b of
              None \<Rightarrow> signup_create e w b None profilePictureUrl
            | Some phone \<Rightarrow>
                (if phone = [] then signup_create e w b (Some phone) profilePictureUrl
                 else (case processPhoneNumber phone of
                         Inl res \<Rightarrow> (Inr res, w)
                       | Inr processedPhoneNumber \<Rightarrow>
                           (if findOne_phoneNumber (users w) processedPhoneNumber \<noteq> None
                            then (Inr (failure 400 ''Phone number already registered''), w)
                            else signup_create e w b (Some processedPhoneNumber) profilePictureUrl)))))"

definition signup_try :: "env \<Rightarrow> world \<Rightarrow> request \<Rightarrow> (js_error + response) \<times> world" where
  "signup_try e w rq =
     (case req_file rq of
        None \<Rightarrow> signup_checks e w (req_body rq) None
      | Some path \<Rightarrow>
          (case profilePictureBlock e path (files w) of
             (Inl res, fs) \<Rightarrow> (Inr res, w\<lparr>files := fs\<rparr>)
           | (Inr url, fs) \<Rightarrow> signup_checks e (w\<lparr>files := fs\<rparr>) (req_body rq) (Some url)))"

definition signup_catch :: "js_error \<Rightarrow> response" where
  "signup_catch error =
     (case error of
        ValidationError errors \<Rightarrow> validation_failed errors
      | MongoDuplicateKey \<Rightarrow> failure 400 ''Email already exists''
      | _ \<Rightarrow> internal_error error)"

definition signup :: "env \<Rightarrow> world \<Rightarrow> request \<Rightarrow> response \<times> world" where
  "signup e w rq =
     (case signup_try e w rq of
        (Inr res, w') \<Rightarrow> (res, w')
      | (Inl error, w') \<Rightarrow> (signup_catch error, w'))"

subsection \<open>login\<close>

text \<open>
  \<open>user.save()\<close> of a loaded document validates the paths that were modified
  (\<open>lastLoginAt\<close>; the hook then stamps \<open>updatedAt\<close>) and writes the document back.
\<close>

definition save_loaded :: "env \<Rightarrow> user list \<Rightarrow> string list \<Rightarrow> user \<Rightarrow> js_error + (user \<times> user list)" where
  "save_loaded e us modified u =
     (if validate_update (now e) modified u \<noteq> []
      then Inl (ValidationError (validate_update (now e) modified u))
      else Inr (u\<lparr>updatedAt := now e\<rparr>,
                map (\<lambda>v. if uid v = uid u then u\<lparr>updatedAt := now e\<rparr> else v) us))"

definition login_try :: "env \<Rightarrow> world \<Rightarrow> request \<Rightarrow> (js_error + response) \<times> world" where
  "login_try e w rq =
     (if falsy (b_email (req_body rq)) \<or> falsy (b_password (req_body rq))
      then (Inr (failure 400 ''Please provide email and password''), w)
      else (case findOne_email (users w) (b_email (req_body rq)) of
              None \<Rightarrow> (Inr (failure 401 ''Invalid email or password''), w)
            | Some user \<Rightarrow>
                (if \<not> isActive user
                 then (Inr (failure 401 ''Account is deactivated. Please contact support.''), w)
                 else (case (b_password (req_body rq), password user) of
                         (Some pw, Some hashed) \<Rightarrow>
                           (if \<not> bcrypt_compare e pw hashed
                            then (Inr (failure 401 ''Invalid email or password''), w)
                            else (case save_loaded e (users w) [''lastLoginAt'']
                                         (user\<lparr>lastLoginAt := Some (now e)\<rparr>) of
                                    Inl err \<Rightarrow> (Inl err, w)
                                  | Inr (saved, us') \<Rightarrow>
                                      (case generateToken e (uid saved) of
                                         Inl err \<Rightarrow> (Inl err, w\<lparr>users := us'\<rparr>)
                                       | Inr token \<Rightarrow>
                                           (Inr (respond 200
                                              [(''success'', JBool True),
                                               (''message'', JStr ''Login successful''),
                                               (''data'', JObj [(''user'', getPublicProfile saved),
                                                                (''token'', JTok token)])]),
                                            w\<lparr>users := us'\<rparr>))))
                       | _ \<Rightarrow> (Inl BcryptIllegalArguments, w)))))"

definition login :: "env \<Rightarrow> world \<Rightarrow> request \<Rightarrow> response \<times> world" where
  "login e w rq =
     (case login_try e w rq of
        (Inr res, w') \<Rightarrow> (res, w')
      | (Inl error, w') \<Rightarrow> (internal_error error, w'))"

subsection \<open>updatePhoneNumber\<close>



subsection \<open>updateProfilePicture\<close>

definition updateProfilePicture_try ::
  "env \<Rightarrow> world \<Rightarrow> request \<Rightarrow> (js_error + response) \<times> world" where
  "updateProfilePicture_try e w rq =
     (case req_file rq of
        None \<Rightarrow> (Inr (failure 400 ''Profile picture is required''), w)
      | Some path \<Rightarrow>
          (case profilePictureBlock e path (files w) of
             (Inl res, fs) \<Rightarrow> (Inr res, w\<lparr>files := fs\<rparr>)
           | (Inr url, fs) \<Rightarrow>
               (case findByIdAndUpdate e (users w) (p_userId (req_user rq)) [''profilePicture'']
                       (\<lambda>u. u\<lparr>profilePicture := Some url\<rparr>) of
                  Inl err \<Rightarrow> (Inl err, w\<lparr>files := fs\<rparr>)
                | Inr (None, us') \<Rightarrow> (Inr (failure 404 ''User not found''), w\<lparr>files := fs\<rparr>)
                | Inr (Some updated, us') \<Rightarrow>
                    (Inr (respond 200
                       [(''success'', JBool True),
                        (''message'', JStr ''Profile picture updated successfully''),
                        (''data'', JObj [(''user'', getPublicProfile updated)])]),
                     w\<lparr>users := us', files := fs\<rparr>))))"

text \<open>The outer \<open>catch\<close> deletes the local file if it exists and answers 500.\<close>

definition cleanup_request_file :: "request \<Rightarrow> world \<Rightarrow> world" where
  "cleanup_request_file rq w =
     (case req_file rq of
        None \<Rightarrow> w
      | Some path \<Rightarrow> w\<lparr>files := cleanupLocalFile path (files w)\<rparr>)"

definition updateProfilePicture :: "env \<Rightarrow> world \<Rightarrow> request \<Rightarrow> response \<times> world" where
  "updateProfilePicture e w rq =
     (case updateProfilePicture_try e w rq of
        (Inr res, w') \<Rightarrow> (res, w')
      | (Inl error, w') \<Rightarrow> (internal_error error, cleanup_request_file rq w'))"

subsection \<open>editProfile\<close>

definition set_if_defined :: "'a option \<Rightarrow> 'a option \<Rightarrow> 'a option" where
  "set_if_defined new old = (case new of None \<Rightarrow> old | Some v \<Rightarrow> Some v)"

definition set_trimmed :: "string option \<Rightarrow> string option \<Rightarrow> string option" where
  "set_trimmed new old = (case new of None \<Rightarrow> old | Some v \<Rightarrow> Some (trim v))"

text \<open>\<open>updateData\<close>, as the function it applies to the stored document.\<close>

definition editProfile_updateData ::
  "body \<Rightarrow> string option \<Rightarrow> string option \<Rightarrow> user \<Rightarrow> user" where
  "editProfile_updateData b processedPhoneNumber profilePictureUrl u =
     u\<lparr>firstName := set_trimmed (b_firstName b) (firstName u),
       lastName := set_trimmed (b_lastName b) (lastName u),
       dateOfBirth := set_if_defined (b_dateOfBirth b) (dateOfBirth u),
       phoneNumber := set_if_defined processedPhoneNumber (phoneNumber u),
       gender := (case b_gender b of None \<Rightarrow> gender u | Some g \<Rightarrow> g),
       bio := set_if_defined (b_bio b) (bio u),
       profilePicture := set_if_defined profilePictureUrl (profilePicture u),
       address :=
         (case b_address b of
            None \<Rightarrow> address u
          | Some a \<Rightarrow>
              \<lparr>street = set_trimmed (street a) (street (address u)),
               city = set_trimmed (city a) (city (address u)),
               state = set_trimmed (state a) (state (address u)),
               country = set_trimmed (country a) (country (address u)),
               zipCode = set_trimmed (zipCode a) (zipCode (address u))\<rparr>),
       socialLinks :=
         (case b_socialLinks b of
            None \<Rightarrow> socialLinks u
          | Some l \<Rightarrow>
              \<lparr>facebook = set_if_defined (facebook l) (facebook (socialLinks u)),
               twitter = set_if_defined (twitter l) (twitter (socialLinks u)),
               linkedin = set_if_defined (linkedin l) (linkedin (socialLinks u)),
               instagram = set_if_defined (instagram l) (instagram (socialLinks u))\<rparr>)\<rparr>"

definition editProfile_paths :: "body \<Rightarrow> string option \<Rightarrow> string list" where
  "editProfile_paths b processedPhoneNumber =
     (if b_firstName b \<noteq> None then [''firstName''] else [])
     @ (if b_lastName b \<noteq> None then [''lastName''] else [])
     @ (if b_dateOfBirth b \<noteq> None then [''dateOfBirth''] else [])
     @ (if processedPhoneNumber \<noteq> None then [''phoneNumber''] else [])
     @ (if b_gender b \<noteq> None then [''gender''] else [])
     @ (if b_bio b \<noteq> None then [''bio''] else [])"

definition editProfile_update ::
  "env \<Rightarrow> world \<Rightarrow> request \<Rightarrow> string option \<Rightarrow> string option \<Rightarrow> (js_error + response) \<times> world" where
  "editProfile_update e w rq processedPhoneNumber profilePictureUrl =
     (case findByIdAndUpdate e (users w) (Some (p_id (req_user rq)))
             (editProfile_paths (req_body rq) processedPhoneNumber)
             (editProfile_updateData (req_body rq) processedPhoneNumber profilePictureUrl) of
        Inl err \<Rightarrow> (Inl err, w)
      | Inr (None, us') \<Rightarrow> (Inr (failure 404 ''User not found''), w)
      | Inr (Some updated, us') \<Rightarrow>
          (Inr (respond 200
             [(''success'', JBool True),
              (''message'', JStr ''Profile updated successfully''),
              (''data'', JObj [(''user'', getPublicProfile updated),
                               (''phoneDetails'', phoneDetails updated)])]),
           w\<lparr>users := us'\<rparr>))"

definition editProfile_checks ::
  "env \<Rightarrow> world \<Rightarrow> request \<Rightarrow> string option \<Rightarrow> (js_error + response) \<times> world" where
  "editProfile_checks e w rq profilePictureUrl =
     (case b_phoneNumber (req_body rq) of
        None \<Rightarrow> editProfile_update e w rq None profilePictureUrl
      | Some phone \<Rightarrow>
          (if phone = [] then editProfile_update e w rq (Some phone) profilePictureUrl
           else (case processPhoneNumber phone of
                   Inl res \<Rightarrow> (Inr res, w)
                 | Inr processedPhoneNumber \<Rightarrow>
                     (case findOne_phoneNumber_ne (users w) processedPhoneNumber
                             (Some (p_id (req_user rq))) of
                        Inl err \<Rightarrow> (Inl err, w)
                      | Inr (Some existingPhoneUser) \<Rightarrow>
                          (Inr (failure 400 ''Phone number already registered by another user''), w)
                      | Inr None \<Rightarrow>
                          editProfile_update e w rq (Some processedPhoneNumber) profilePictureUrl))))"

definition editProfile_try :: "env \<Rightarrow> world \<Rightarrow> request \<Rightarrow> (js_error + response) \<times> world" where
  "editProfile_try e w rq =
     (case req_file rq of
        None \<Rightarrow> editProfile_checks e w rq None
      | Some path \<Rightarrow>
          (case profilePictureBlock e path (files w) of
             (Inl res, fs) \<Rightarrow> (Inr res, w\<lparr>files := fs\<rparr>)
           | (Inr url, fs) \<Rightarrow> editProfile_checks e (w\<lparr>files := fs\<rparr>) rq (Some url)))"

definition editProfile :: "env \<Rightarrow> world \<Rightarrow> request \<Rightarrow> response \<times> world" where
  "editProfile e w rq =
     (case editProfile_try e w rq of
        (Inr res, w') \<Rightarrow> (res, w')
      | (Inl (ValidationError errors), w') \<Rightarrow>
          (validation_failed errors, cleanup_request_file rq w')
      | (Inl MongoDuplicateKey, w') \<Rightarrow>
          (failure 400 ''Duplicate field value. Please check your input.'',
           cleanup_request_file rq w')
      | (Inl error, w') \<Rightarrow> (internal_error error, cleanup_request_file rq w'))"

section \<open>Handlers of the admin controller\<close>

subsection \<open>adminLogin\<close>

definition adminLogin_try :: "env \<Rightarrow> request \<Rightarrow> js_error + response" where
  "adminLogin_try e rq =
     (if falsy (b_email (req_body rq)) \<or> falsy (b_password (req_body rq))
      then Inr (failure 400 ''Email and password are required'')
      else (case (ADMIN_EMAIL e, ADMIN_PASSWORD e) of
              (Some adminEmail, Some adminPassword) \<Rightarrow>
                (if adminEmail = [] \<or> adminPassword = []
                 then Inr (failure 500 ''Admin configuration error'')
                 else if b_email (req_body rq) \<noteq> Some adminEmail
                 then Inr (failure 401 ''Invalid admin credentials'')
                 else if b_password (req_body rq) \<noteq> Some adminPassword
                 then Inr (failure 401 ''Invalid admin credentials'')
                 else (case jwt_sign [(''userId'', ''admin''), (''email'', adminEmail),
                                      (''role'', ''admin'')]
                              (JWT_SECRET e) (24 * 60 * 60) (now e) of
                         Inl err \<Rightarrow> Inl err
                       | Inr token \<Rightarrow>
                           Inr (respond 200
                             [(''success'', JBool True),
                              (''message'', JStr ''Admin login successful''),
                              (''data'', JObj [(''token'', JTok token),
                                               (''user'', JObj [(''_id'', JStr ''admin''),
                                                                (''email'', JStr adminEmail),
                                                                (''role'', JStr ''admin''),
                                                                (''firstName'', JStr ''Admin''),
                                                                (''lastName'', JStr ''User'')])])])))
            | _ \<Rightarrow> Inr (failure 500 ''Admin configuration error'')))"

definition adminLogin :: "env \<Rightarrow> request \<Rightarrow> response" where
  "adminLogin e rq =
     (case adminLogin_try e rq of
        Inr res \<Rightarrow> res
      | Inl error \<Rightarrow> internal_error error)"

subsection \<open>deleteUser\<close>

definition deleteUser_try :: "world \<Rightarrow> request \<Rightarrow> (js_error + response) \<times> world" where
  "deleteUser_try w rq =
     (case findById (users w) (req_id rq) of
        Inl err \<Rightarrow> (Inl err, w)
      | Inr None \<Rightarrow> (Inr (failure 404 ''User not found''), w)
      | Inr (Some found) \<Rightarrow>
          (if req_id rq = p_id (req_user rq)
           then (Inr (failure 400 ''Cannot delete your own account''), w)
           else (Inr (respond 200 [(''success'', JBool True),
                                    (''message'', JStr ''User deleted successfully'')]),
                 w\<lparr>users := filter (\<lambda>u. uid u \<noteq> uid found) (users w)\<rparr>)))"

definition deleteUser :: "world \<Rightarrow> request \<Rightarrow> response \<times> world" where
  "deleteUser w rq =
     (case deleteUser_try w rq of
        (Inr res, w') \<Rightarrow> (res, w')
      | (Inl error, w') \<Rightarrow> (internal_error error, w'))"

subsection \<open>toggleUserStatus\<close>

definition toggleUserStatus_try ::
  "env \<Rightarrow> world \<Rightarrow> request \<Rightarrow> (js_error + response) \<times> world" where
  "toggleUserStatus_try e w rq =
     (case findById (users w) (req_id rq) of
        Inl err \<Rightarrow> (Inl err, w)
      | Inr None \<Rightarrow> (Inr (failure 404 ''User not found''), w)
      | Inr (Some found) \<Rightarrow>
          (if req_id rq = p_id (req_user rq) \<and> b_isActive (req_body rq) \<noteq> Some True
           then (Inr (failure 400 ''Cannot deactivate your own account''), w)
           else (case findByIdAndUpdate e (users w) (Some (req_id rq)) []
                        (\<lambda>u. case b_isActive (req_body rq) of
                                None \<Rightarrow> u
                              | Some v \<Rightarrow> u\<lparr>isActive := v\<rparr>) of
                   Inl err \<Rightarrow> (Inl err, w)
                 | Inr (updatedUser, us') \<Rightarrow>
                     (Inr (respond 200
                        [(''success'', JBool True),
                         (''message'', JStr (''User ''
                            @ (if b_isActive (req_body rq) = Some True
                               then ''activated'' else ''deactivated'')
                            @ '' successfully'')),
                         (''data'', JObj [(''user'',
                            (case updatedUser of
                               None \<Rightarrow> JNull
                             | Some u \<Rightarrow> select_without_password u))])]),
                      w\<lparr>users := us'\<rparr>))))"

definition toggleUserStatus :: "env \<Rightarrow> world \<Rightarrow> request \<Rightarrow> response \<times> world" where
  "toggleUserStatus e w rq =
     (case toggleUserStatus_try e w rq of
        (Inr res, w') \<Rightarrow> (res, w')
      | (Inl error, w') \<Rightarrow> (internal_error error, w'))"

subsection \<open>bulkOperations\<close>

text \<open>
  \<open>{ _id: { $in: userIds } }\<close>: every id of the list is cast. \<open>updateMany\<close> also stamps
  \<open>updatedAt\<close>, so every matched document counts as modified.
\<close>

definition cast_ids :: "string list \<Rightarrow> js_error + string list" where
  "cast_ids ids =
     (case filter (\<lambda>i. \<not> isValidObjectId i) ids of
        [] \<Rightarrow> Inr (map toLowerCase ids)
      | bad # _ \<Rightarrow> Inl (CastError bad))"

definition updateMany_isActive ::
  "env \<Rightarrow> user list \<Rightarrow> string list \<Rightarrow> bool \<Rightarrow> js_error + (nat \<times> user list)" where
  "updateMany_isActive e us ids v =
     (case cast_ids ids of
        Inl err \<Rightarrow> Inl err
      | Inr oids \<Rightarrow>
          Inr (length (filter (\<lambda>u. uid u \<in> set oids) us),
               map (\<lambda>u. if uid u \<in> set oids then u\<lparr>isActive := v, updatedAt := now e\<rparr> else u) us))"

definition deleteMany :: "user list \<Rightarrow> string list \<Rightarrow> js_error + (nat \<times> user list)" where
  "deleteMany us ids =
     (case cast_ids ids of
        Inl err \<Rightarrow> Inl err
      | Inr oids \<Rightarrow>
          Inr (length (filter (\<lambda>u. uid u \<in> set oids) us),
               filter (\<lambda>u. uid u \<notin> set oids) us))"

definition bulk_done :: "string \<Rightarrow> nat \<Rightarrow> response" where
  "bulk_done what n =
     respond 200 [(''success'', JBool True),
                  (''message'', JStr (show_nat n @ '' users '' @ what @ '' successfully'')),
                  (''data'', JObj [(''affectedCount'', JNum (int n))])]"

definition bulkOperations_try ::
  "env \<Rightarrow> world \<Rightarrow> request \<Rightarrow> (js_error + response) \<times> world" where
  "bulkOperations_try e w rq =
     (case (b_operation (req_body rq), b_userIds (req_body rq)) of
        (Some operation, Some userIds) \<Rightarrow>
          (if operation = [] \<or> userIds = []
           then (Inr (failure 400 ''Operation and user IDs are required''), w)
           else if p_id (req_user rq) \<in> set userIds
           then (Inr (failure 400 ''Cannot perform bulk operations on your own account''), w)
           else if operation = ''activate'' then
             (case updateMany_isActive e (users w) userIds True of
                Inl err \<Rightarrow> (Inl err, w)
              | Inr (n, us') \<Rightarrow> (Inr (bulk_done ''activated'' n), w\<lparr>users := us'\<rparr>))
           else if operation = ''deactivate'' then
             (case updateMany_isActive e (users w) userIds False of
                Inl err \<Rightarrow> (Inl err, w)
              | Inr (n, us') \<Rightarrow> (Inr (bulk_done ''deactivated'' n), w\<lparr>users := us'\<rparr>))
           else if operation = ''delete'' then
             (case deleteMany (users w) userIds of
                Inl err \<Rightarrow> (Inl err, w)
              | Inr (n, us') \<Rightarrow> (Inr (bulk_done ''deleted'' n), w\<lparr>users := us'\<rparr>))
           else (Inr (failure 400
                   ''Invalid operation. Supported operations: activate, deactivate, delete''), w))
      | _ \<Rightarrow> (Inr (failure 400 ''Operation and user IDs are required''), w))"

definition bulkOperations :: "env \<Rightarrow> world \<Rightarrow> request \<Rightarrow> response \<times> world" where
  "bulkOperations e w rq =
     (case bulkOperations_try e w rq of
        (Inr res, w') \<Rightarrow> (res, w')
      | (Inl error, w') \<Rightarrow> (internal_error error, w'))"

section \<open>Sample environment, store and requests\<close>

text \<open>
  Concrete inputs for the examples below. \<open>demo_hash\<close> stands in for bcrypt: like a bcrypt
  hash, its result is 60 characters long whatever the password.
\<close>

definition demo_hash :: "string \<Rightarrow> string" where
  "demo_hash p = ''$2a$10$'' @ take 53 (p @ replicate 53 CHR ''.'')"

definition demo_env :: env where
  "demo_env =
     \<lparr>JWT_SECRET = Some ''jwt-secret'',
      ADMIN_EMAIL = Some ''admin@example.com'',
      ADMIN_PASSWORD = Some ''admin-pass'',
      now = 1700000000000,
      cloudinary_upload = (\<lambda>file. Inr ''https://res.cloudinary.com/demo/pic.jpg''),
      bcrypt_hash = demo_hash,
      bcrypt_compare = (\<lambda>p h. demo_hash p = h),
      new_object_id = ''65f0c0ffee0000000000beef''\<rparr>"

definition failing_upload_env :: env where
  "failing_upload_env = demo_env\<lparr>cloudinary_upload := (\<lambda>file. Inl ''Upload rejected'')\<rparr>"

definition unconfigured_env :: env where
  "unconfigured_env = demo_env\<lparr>ADMIN_EMAIL := None, ADMIN_PASSWORD := None\<rparr>"

definition alice :: user where
  "alice =
     blank_user\<lparr>uid := ''65f0c0ffee0000000000a11c'', firstName := Some ''Alice'',
       lastName := Some ''Liddell'', email := Some ''al@ex.io'',
       password := Some (demo_hash ''wonderland''), phoneNumber := Some ''+911234567890'',
       address := blank_address\<lparr>country := Some ''India''\<rparr>, role := ''admin'',
       createdAt := 1600000000000, updatedAt := 1600000000000\<rparr>"

definition demo_world :: world where
  "demo_world = \<lparr>users = [alice], files = {''uploads/tmp-1.png''}\<rparr>"

definition empty_body :: body where
  "empty_body =
     \<lparr>b_firstName = None, b_lastName = None, b_email = None, b_password = None,
      b_dateOfBirth = None, b_phoneNumber = None, b_gender = None, b_address = None,
      b_bio = None, b_socialLinks = None, b_isActive = None, b_operation = None,
      b_userIds = None\<rparr>"

definition anonymous :: principal where
  "anonymous = \<lparr>p_id = [], p_userId = None\<rparr>"

text \<open>The principal of an admin token: the sentinel id \<open>admin\<close> that \<open>adminLogin\<close> signs.\<close>

definition admin_sentinel :: principal where
  "admin_sentinel = \<lparr>p_id = ''admin'', p_userId = Some ''admin''\<rparr>"

definition alice_principal :: principal where
  "alice_principal =
     \<lparr>p_id = ''65f0c0ffee0000000000a11c'', p_userId = Some ''65f0c0ffee0000000000a11c''\<rparr>"

definition request_of :: "body \<Rightarrow> request" where
  "request_of b = \<lparr>req_body = b, req_file = None, req_id = [], req_user = anonymous\<rparr>"

definition bob_body :: body where
  "bob_body =
     empty_body\<lparr>b_firstName := Some ''Bob'', b_lastName := Some ''Builder'',
       b_email := Some ''bob@ex.io'', b_password := Some ''secret''\<rparr>"

text \<open>A login of \<open>alice\<close> with her password, and an admin login with the configured pair.\<close>

definition alice_login :: body where
  "alice_login = empty_body\<lparr>b_email := Some ''al@ex.io'', b_password := Some ''wonderland''\<rparr>"

definition admin_login :: body where
  "admin_login =
     empty_body\<lparr>b_email := Some ''admin@example.com'', b_password := Some ''admin-pass''\<rparr>"

section \<open>Notions the properties are stated with\<close>

text \<open>The two responses with which the phone block turns a number down.\<close>

definition phone_rejections :: "response list" where
  "phone_rejections =
     [failure 400 ''Phone number must start with country code (e.g., +91 for India)'',
      failure 400 ''Invalid phone number format. Please include country code (e.g., +911234567890)'']"

text \<open>
  The request gets past the profile-picture block: it carries no file, or the media host
  accepts the upload and the temporary file is on disk to be deleted.
\<close>

definition picture_step_passes :: "env \<Rightarrow> world \<Rightarrow> request \<Rightarrow> bool" where
  "picture_step_passes e w rq =
     (case req_file rq of
        None \<Rightarrow> True
      | Some path \<Rightarrow>
          (case cloudinary_upload e path of
             Inr url \<Rightarrow> path \<in> files w
           | Inl message \<Rightarrow> False))"

text \<open>Every token, and every key, that occurs anywhere in a response body.\<close>

fun tokens_in :: "jval \<Rightarrow> token list" where
  "tokens_in (JTok t) = [t]"
| "tokens_in (JArr vs) = concat (map tokens_in vs)"
| "tokens_in (JObj kvs) = concat (map (\<lambda>kv. tokens_in (snd kv)) kvs)"
| "tokens_in _ = []"

fun keys_in :: "jval \<Rightarrow> string list" where
  "keys_in (JArr vs) = concat (map keys_in vs)"
| "keys_in (JObj kvs) = concat (map (\<lambda>kv. fst kv # keys_in (snd kv)) kvs)"
| "keys_in _ = []"

text \<open>
  A response that reports a failure and gives nothing away: its status is neither 200 nor
  201, and its body holds no token and no \<open>password\<close> key.
\<close>

definition error_response :: "response \<Rightarrow> bool" where
  "error_response r =
     (status r \<noteq> 200 \<and> status r \<noteq> 201 \<and> tokens_in (json r) = []
      \<and> ''password'' \<notin> set (keys_in (json r)))"

text \<open>The body of a successful signup or login: the public profile and the token.\<close>

definition session_response :: "nat \<Rightarrow> string \<Rightarrow> user \<Rightarrow> token \<Rightarrow> response" where
  "session_response n msg u t =
     respond n [(''success'', JBool True), (''message'', JStr msg),
                (''data'', JObj [(''user'', getPublicProfile u), (''token'', JTok t)])]"

text \<open>
  What a request that gets past the picture and phone blocks goes on with: the state after
  the temporary file has been deleted, the URL of the uploaded picture, and the phone number
  the handler keeps (the stripped number, or the value as sent when it is falsy).
\<close>

definition after_picture :: "world \<Rightarrow> request \<Rightarrow> world" where
  "after_picture w rq =
     (case req_file rq of None \<Rightarrow> w | Some path \<Rightarrow> w\<lparr>files := files w - {path}\<rparr>)"

definition uploaded_picture :: "env \<Rightarrow> request \<Rightarrow> string option" where
  "uploaded_picture e rq =
     (case req_file rq of
        None \<Rightarrow> None
      | Some path \<Rightarrow> (case cloudinary_upload e path of Inr url \<Rightarrow> Some url | Inl message \<Rightarrow> None))"

definition processed_phone :: "body \<Rightarrow> string option" where
  "processed_phone b =
     (case b_phoneNumber b of
        None \<Rightarrow> None
      | Some phone \<Rightarrow> if phone = [] then Some phone else Some (strip_phone phone))"

text \<open>
  The request gets past signup's phone block: it carries no phone number (or an empty one),
  or the number has the accepted shape and no stored user has it.
\<close>

definition phone_step_passes :: "world \<Rightarrow> body \<Rightarrow> bool" where
  "phone_step_passes w b =
     (case b_phoneNumber b of
        None \<Rightarrow> True
      | Some phone \<Rightarrow>
          phone = []
          \<or> (e164_shape (strip_phone phone)
              \<and> findOne_phoneNumber (users w) (strip_phone phone) = None))"

text \<open>The document signup validates and saves for a request with password \<open>pw\<close>.\<close>

definition signup_document :: "env \<Rightarrow> request \<Rightarrow> string \<Rightarrow> user" where
  "signup_document e rq pw =
     new_User e (req_body rq) (bcrypt_hash e pw) (processed_phone (req_body rq))
       (uploaded_picture e rq)"

text \<open>
  The same for the profile edit: its phone block looks for the number among the other users,
  and what its update validators report is \<open>editProfile_errors\<close>.
\<close>

definition edit_phone_step_passes :: "world \<Rightarrow> request \<Rightarrow> bool" where
  "edit_phone_step_passes w rq =
     (case b_phoneNumber (req_body rq) of
        None \<Rightarrow> True
      | Some phone \<Rightarrow>
          phone = []
          \<or> (e164_shape (strip_phone phone)
              \<and> findOne_phoneNumber_ne (users w) (strip_phone phone) (Some (p_id (req_user rq)))
                  = Inr None))"

definition editProfile_errors :: "env \<Rightarrow> request \<Rightarrow> (string \<times> string) list" where
  "editProfile_errors e rq =
     validate_update (now e)
       (editProfile_paths (req_body rq) (processed_phone (req_body rq)))
       (editProfile_updateData (req_body rq) (processed_phone (req_body rq))
          (uploaded_picture e rq) blank_user)"

section \<open>The matcher decides the language\<close>

lemma nil_in_conc: "[] \<in> conc A B \<longleftrightarrow> [] \<in> A \<and> [] \<in> B"
  by (auto simp: conc_def)

lemma cons_in_conc:
  "c # s \<in> conc A B \<longleftrightarrow>
     (\<exists>u v. s = u @ v \<and> c # u \<in> A \<and> v \<in> B) \<or> ([] \<in> A \<and> c # s \<in> B)"
proof
  assume "c # s \<in> conc A B"
  then obtain u v where uv: "c # s = u @ v" "u \<in> A" "v \<in> B"
    by (auto simp: conc_def)
  show "(\<exists>u v. s = u @ v \<and> c # u \<in> A \<and> v \<in> B) \<or> ([] \<in> A \<and> c # s \<in> B)"
  proof (cases u)
    case Nil
    with uv show ?thesis by simp
  next
    case (Cons a u')
    with uv have "s = u' @ v" "c # u' \<in> A" by simp_all
    with uv(3) show ?thesis by blast
  qed
next
  assume "(\<exists>u v. s = u @ v \<and> c # u \<in> A \<and> v \<in> B) \<or> ([] \<in> A \<and> c # s \<in> B)"
  then show "c # s \<in> conc A B"
  proof
    assume "\<exists>u v. s = u @ v \<and> c # u \<in> A \<and> v \<in> B"
    then obtain u v where "s = u @ v" "c # u \<in> A" "v \<in> B" by blast
    then have "(c # u) @ v \<in> conc A B" unfolding conc_def by blast
    with \<open>s = u @ v\<close> show ?thesis by simp
  next
    assume "[] \<in> A \<and> c # s \<in> B"
    then have "[] @ (c # s) \<in> conc A B" unfolding conc_def by blast
    then show ?thesis by simp
  qed
qed

lemma star_cons_split:
  assumes "w \<in> star A" and "w = c # s"
  shows "\<exists>u v. s = u @ v \<and> c # u \<in> A \<and> v \<in> star A"
  using assms
proof (induction arbitrary: s rule: star.induct)
  case star_nil
  then show ?case by simp
next
  case (star_app u v)
  show ?case
  proof (cases u)
    case Nil
    with star_app show ?thesis by simp
  next
    case (Cons a u')
    with star_app.prems have "s = u' @ v" "a = c" by simp_all
    with star_app.hyps Cons show ?thesis by blast
  qed
qed

lemma cons_in_star:
  "c # s \<in> star A \<longleftrightarrow> (\<exists>u v. s = u @ v \<and> c # u \<in> A \<and> v \<in> star A)"
proof
  assume "c # s \<in> star A"
  then show "\<exists>u v. s = u @ v \<and> c # u \<in> A \<and> v \<in> star A"
    by (rule star_cons_split) simp
next
  assume "\<exists>u v. s = u @ v \<and> c # u \<in> A \<and> v \<in> star A"
  then obtain u v where "s = u @ v" "c # u \<in> A" "v \<in> star A" by blast
  then have "(c # u) @ v \<in> star A" by (blast intro: star_app)
  with \<open>s = u @ v\<close> show "c # s \<in> star A" by simp
qed

lemma empty_ok_lang: "empty_ok r \<longleftrightarrow> [] \<in> lang r"
  by (induction r) (auto simp: nil_in_conc intro: star_nil)

lemma after_lang: "s \<in> lang (after c r) \<longleftrightarrow> c # s \<in> lang r"
proof (induction r arbitrary: s)
  case (Seq r1 r2)
  have "s \<in> conc (lang (after c r1)) (lang r2) \<longleftrightarrow>
        (\<exists>u v. s = u @ v \<and> c # u \<in> lang r1 \<and> v \<in> lang r2)"
    using Seq.IH(1) by (auto simp: conc_def)
  with Seq.IH(2) show ?case
    by (auto simp: cons_in_conc empty_ok_lang)
next
  case (Many r)
  have "s \<in> conc (lang (after c r)) (star (lang r)) \<longleftrightarrow>
        (\<exists>u v. s = u @ v \<and> c # u \<in> lang r \<and> v \<in> star (lang r))"
    using Many.IH by (auto simp: conc_def)
  then show ?case by (simp add: cons_in_star)
qed auto

lemma test_lang: "test r s \<longleftrightarrow> s \<in> lang r"
  by (induction s arbitrary: r) (simp_all add: empty_ok_lang after_lang)

lemma conc_cls: "s \<in> conc {[c] | c. P c} B \<longleftrightarrow> (\<exists>c t. s = c # t \<and> P c \<and> t \<in> B)"
proof
  assume "s \<in> conc {[c] | c. P c} B"
  then obtain u v where "s = u @ v" "u \<in> {[c] | c. P c}" "v \<in> B"
    unfolding conc_def by blast
  then show "\<exists>c t. s = c # t \<and> P c \<and> t \<in> B" by auto
next
  assume "\<exists>c t. s = c # t \<and> P c \<and> t \<in> B"
  then obtain c t where "s = [c] @ t" "P c" "t \<in> B" by auto
  then show "s \<in> conc {[c] | c. P c} B" unfolding conc_def by blast
qed

lemma lang_seq_cls: "s \<in> lang (Seq (Cls P) r) \<longleftrightarrow> (\<exists>c t. s = c # t \<and> P c \<and> t \<in> lang r)"
  by (simp add: conc_cls)

lemma lang_rep_exactly_cls:
  "s \<in> lang (rep_exactly n (Cls P)) \<longleftrightarrow> length s = n \<and> list_all P s"
proof (induction n arbitrary: s)
  case 0
  show ?case by auto
next
  case (Suc n)
  have "s \<in> lang (rep_exactly (Suc n) (Cls P)) \<longleftrightarrow>
        (\<exists>c t. s = c # t \<and> P c \<and> length t = n \<and> list_all P t)"
    using Suc by (simp add: conc_cls)
  also have "\<dots> \<longleftrightarrow> length s = Suc n \<and> list_all P s"
    by (cases s) auto
  finally show ?case .
qed

lemma lang_rep_upto_cls:
  "s \<in> lang (rep_upto n (Cls P)) \<longleftrightarrow> length s \<le> n \<and> list_all P s"
proof (induction n arbitrary: s)
  case 0
  show ?case by auto
next
  case (Suc n)
  have "s \<in> lang (rep_upto (Suc n) (Cls P)) \<longleftrightarrow>
        s = [] \<or> (\<exists>c t. s = c # t \<and> P c \<and> length t \<le> n \<and> list_all P t)"
    using Suc by (simp add: conc_cls)
  also have "\<dots> \<longleftrightarrow> length s \<le> Suc n \<and> list_all P s"
    by (cases s) auto
  finally show ?case .
qed

lemma lang_rep_between_cls:
  assumes "m \<le> n"
  shows "s \<in> lang (rep_between m n (Cls P)) \<longleftrightarrow> m \<le> length s \<and> length s \<le> n \<and> list_all P s"
proof
  assume "s \<in> lang (rep_between m n (Cls P))"
  then obtain u v where "s = u @ v" "u \<in> lang (rep_exactly m (Cls P))"
      "v \<in> lang (rep_upto (n - m) (Cls P))"
    unfolding rep_between_def lang.simps conc_def by blast
  then have "s = u @ v" "length u = m" "list_all P u" "length v \<le> n - m" "list_all P v"
    by (simp_all add: lang_rep_exactly_cls lang_rep_upto_cls)
  with assms show "m \<le> length s \<and> length s \<le> n \<and> list_all P s" by simp
next
  assume a: "m \<le> length s \<and> length s \<le> n \<and> list_all P s"
  have "set (take m s) \<subseteq> set s" "set (drop m s) \<subseteq> set s"
    by (simp_all add: set_take_subset set_drop_subset)
  with a have "list_all P (take m s)" "list_all P (drop m s)"
    unfolding list_all_iff by blast+
  with a have "take m s \<in> lang (rep_exactly m (Cls P))"
      "drop m s \<in> lang (rep_upto (n - m) (Cls P))"
    by (auto simp: lang_rep_exactly_cls lang_rep_upto_cls)
  then have "take m s @ drop m s \<in> lang (rep_between m n (Cls P))"
    unfolding rep_between_def lang.simps conc_def by blast
  then show "s \<in> lang (rep_between m n (Cls P))" by simp
qed

text \<open>
  The controllers' expression \<open>/^\+[1-9]\d{1,14}$/\<close> accepts exactly the strings of the shape
  the specification words.
\<close>

lemma phone_re_shape: "test phone_re s \<longleftrightarrow> e164_shape s"
proof -
  have "test phone_re s \<longleftrightarrow>
        (\<exists>p t. s = p # t \<and> p = CHR ''+'' \<and>
           (\<exists>d ds. t = d # ds \<and> is_nonzero_digit d \<and>
              1 \<le> length ds \<and> length ds \<le> 14 \<and> list_all is_digit ds))"
    unfolding test_lang phone_re_def lang_seq_cls
    by (simp add: lang_rep_between_cls)
  also have "\<dots> \<longleftrightarrow> e164_shape s"
    unfolding e164_shape_def by (auto split: list.splits)
  finally show ?thesis .
qed


section \<open>Responses and the phone block\<close>

lemma status_failure: "status (failure n msg) = n"
  by (simp add: failure_def respond_def)

lemma status_respond: "status (respond n kvs) = n"
  by (simp add: respond_def)

lemma status_validation_failed: "status (validation_failed errs) = 400"
  by (simp add: validation_failed_def respond_def)

lemma status_internal_error: "status (internal_error err) = 500"
  by (simp add: internal_error_def respond_def)

lemma shape_startsWith: "e164_shape s \<Longrightarrow> startsWith s ''+''"
  by (auto simp: e164_shape_def startsWith_def split: list.splits)

lemma processPhoneNumber_accepts:
  "e164_shape (strip_phone phone) \<Longrightarrow> processPhoneNumber phone = Inr (strip_phone phone)"
  by (simp add: processPhoneNumber_def Let_def shape_startsWith phone_re_shape)

lemma processPhoneNumber_rejects:
  "\<not> e164_shape (strip_phone phone) \<Longrightarrow>
   processPhoneNumber phone = Inl (failure 400 ''Phone number must start with country code (e.g., +91 for India)'')
   \<or> processPhoneNumber phone = Inl (failure 400 ''Invalid phone number format. Please include country code (e.g., +911234567890)'')"
  by (simp add: processPhoneNumber_def Let_def phone_re_shape)



lemma processPhoneNumber_Inl:
  "processPhoneNumber phone = Inl r \<Longrightarrow> r \<in> set phone_rejections \<and> \<not> e164_shape (strip_phone phone)"
  by (auto simp: processPhoneNumber_def Let_def phone_re_shape phone_rejections_def
           dest: shape_startsWith split: if_splits)







section \<open>Phone validation in the handlers\<close>














section \<open>C1: phone number validation\<close>









section \<open>C2: the password length check\<close>

text \<open>
  The schema asks for at least 6 characters in \<open>password\<close>, but \<open>signup\<close> stores the hash in
  that path, so the validator measures the hash. Whatever the password, the path passes as
  soon as the hash has 6 characters, and a bcrypt hash has 60.
\<close>

lemma invalid_paths_iff:
  "p \<in> set (invalid_paths now_ms u) \<longleftrightarrow>
     (\<exists>f. (p, f) \<in> set (schema_paths now_ms) \<and> f u \<noteq> None)"
  by (force simp: invalid_paths_def)

lemma password_path:
  "(''password'', f) \<in> set (schema_paths now_ms) \<Longrightarrow>
     f = (\<lambda>u. first_failure
            [required ''Password is required'' (password u),
             minlength 6 ''Password must be at least 6 characters'' (password u)])"
  by (simp add: schema_paths_def)

lemma password_path_checks_the_hash:
  assumes "6 \<le> length (bcrypt_hash e pw)"
  shows "''password'' \<notin> set (invalid_paths (now e) (new_User e b (bcrypt_hash e pw) phone pic))"
proof
  assume "''password'' \<in> set (invalid_paths (now e) (new_User e b (bcrypt_hash e pw) phone pic))"
  then obtain f where f: "(''password'', f) \<in> set (schema_paths (now e))"
      and n: "f (new_User e b (bcrypt_hash e pw) phone pic) \<noteq> None"
    unfolding invalid_paths_iff by blast
  from assms have ne: "bcrypt_hash e pw \<noteq> []" by auto
  from n show False
    unfolding password_path [OF f]
    using assms ne
    by (simp add: new_User_def first_failure_def required_def minlength_def falsy_def)
qed

text \<open>
  Claim C2 fails on the code: a signup whose password is \<open>abc\<close> is answered 201 and the user
  is stored, with the hash of \<open>abc\<close> as its password.
\<close>

theorem signup_accepts_short_password:
  "(case signup demo_env demo_world (request_of (bob_body\<lparr>b_password := Some ''abc''\<rparr>)) of
      (res, w') \<Rightarrow>
        status res = 201
        \<and> map email (users w') = [Some ''al@ex.io'', Some ''bob@ex.io'']
        \<and> password (last (users w')) = Some (demo_hash ''abc''))"
  by code_simp

section \<open>C5: the temporary file after a failed upload\<close>

text \<open>
  When the media host rejects the upload, \<open>uploadToCloudinary\<close> reports the failure, the
  block returns 500 from inside the \<open>try\<close>, and neither the \<open>unlinkSync\<close> after it nor the
  \<open>catch\<close> runs: the files on disk are what they were.
\<close>

lemma failed_upload_block:
  assumes "cloudinary_upload e path = Inl msg"
  shows "profilePictureBlock e path fs = (Inl (failure 500 ''Failed to upload profile picture''), fs)"
  using assms by (simp add: profilePictureBlock_def uploadToCloudinary_def)

lemma failed_upload_keeps_file:
  assumes "req_file rq = Some path" and "cloudinary_upload e path = Inl msg"
  shows "signup e w rq = (failure 500 ''Failed to upload profile picture'', w)"
    and "updateProfilePicture e w rq = (failure 500 ''Failed to upload profile picture'', w)"
    and "editProfile e w rq = (failure 500 ''Failed to upload profile picture'', w)"
  using assms
  by (simp_all add: signup_def signup_try_def updateProfilePicture_def
        updateProfilePicture_try_def editProfile_def editProfile_try_def failed_upload_block)

text \<open>
  Claim C5 fails on the code: the upload of \<open>uploads/tmp-1.png\<close> fails, signup and the
  profile-picture update answer 500, and the temporary file is still on disk.
\<close>

theorem failed_upload_leaves_temp_file:
  "status (fst (signup failing_upload_env demo_world
       ((request_of bob_body)\<lparr>req_file := Some ''uploads/tmp-1.png''\<rparr>))) = 500
   \<and> ''uploads/tmp-1.png'' \<in> files (snd (signup failing_upload_env demo_world
       ((request_of bob_body)\<lparr>req_file := Some ''uploads/tmp-1.png''\<rparr>)))
   \<and> status (fst (updateProfilePicture failing_upload_env demo_world
       ((request_of empty_body)\<lparr>req_file := Some ''uploads/tmp-1.png''\<rparr>))) = 500
   \<and> ''uploads/tmp-1.png'' \<in> files (snd (updateProfilePicture failing_upload_env demo_world
       ((request_of empty_body)\<lparr>req_file := Some ''uploads/tmp-1.png''\<rparr>)))"
proof -
  have u: "cloudinary_upload failing_upload_env ''uploads/tmp-1.png'' = Inl ''Upload rejected''"
    by (simp add: failing_upload_env_def)
  have f: "''uploads/tmp-1.png'' \<in> files demo_world"
    by (simp add: demo_world_def)
  have r1: "req_file ((request_of bob_body)\<lparr>req_file := Some ''uploads/tmp-1.png''\<rparr>)
            = Some ''uploads/tmp-1.png''" by simp
  have r2: "req_file ((request_of empty_body)\<lparr>req_file := Some ''uploads/tmp-1.png''\<rparr>)
            = Some ''uploads/tmp-1.png''" by simp
  show ?thesis
    using failed_upload_keeps_file(1) [OF r1 u, of demo_world]
      failed_upload_keeps_file(2) [OF r2 u, of demo_world] f
    by (simp add: status_failure)
qed

section \<open>What a response body contains\<close>

lemma delete_key_Nil: "delete_key k [] = []"
  by (simp add: delete_key_def)

lemma delete_key_Cons:
  "delete_key k ((k', v) # xs) = (if k' = k then delete_key k xs else (k', v) # delete_key k xs)"
  by (simp add: delete_key_def)

lemma delete_key_append: "delete_key k (xs @ ys) = delete_key k xs @ delete_key k ys"
  by (simp add: delete_key_def)

lemma delete_key_opt_str: "delete_key k (opt_str k' v) = (if k' = k then [] else opt_str k' v)"
  by (cases v) (simp_all add: delete_key_def opt_str_def)

lemma delete_key_opt_num: "delete_key k (opt_num k' v) = (if k' = k then [] else opt_num k' v)"
  by (cases v) (simp_all add: delete_key_def opt_num_def)

lemma delete_key_minimized:
  "delete_key k (minimized k' v) = (if k' = k then [] else minimized k' v)"
  by (simp add: delete_key_def minimized_def)

lemmas delete_key_simps =
  delete_key_Nil delete_key_Cons delete_key_append delete_key_opt_str delete_key_opt_num
  delete_key_minimized

lemma tokens_in_append:
  "tokens_in (JObj (xs @ ys)) = tokens_in (JObj xs) @ tokens_in (JObj ys)"
  by simp

lemma tokens_in_opt: "tokens_in (JObj (opt_str k v)) = []" "tokens_in (JObj (opt_num k n)) = []"
  by (cases v, simp_all add: opt_str_def) (cases n, simp_all add: opt_num_def)

lemma tokens_in_nullable: "tokens_in (nullable_str v) = []" "tokens_in (nullable_num n) = []"
  by (cases v, simp_all add: nullable_str_def) (cases n, simp_all add: nullable_num_def)

lemma keys_in_append:
  "set (keys_in (JObj (xs @ ys))) = set (keys_in (JObj xs)) \<union> set (keys_in (JObj ys))"
  by simp

lemma keys_in_opt:
  "p \<noteq> k \<Longrightarrow> p \<notin> set (keys_in (JObj (opt_str k v)))"
  "p \<noteq> k \<Longrightarrow> p \<notin> set (keys_in (JObj (opt_num k n)))"
  by (cases v, simp_all add: opt_str_def) (cases n, simp_all add: opt_num_def)

lemma keys_in_nullable: "keys_in (nullable_str v) = []" "keys_in (nullable_num n) = []"
  by (cases v, simp_all add: nullable_str_def) (cases n, simp_all add: nullable_num_def)

lemma tokens_in_address: "tokens_in (address_json a) = []"
  unfolding address_json_def tokens_in_append tokens_in_opt by simp

lemma tokens_in_socialLinks: "tokens_in (socialLinks_json l) = []"
  unfolding socialLinks_json_def tokens_in_append tokens_in_opt by simp

lemma keys_in_Nil: "keys_in (JObj []) = []"
  by simp

lemma keys_in_Cons:
  "set (keys_in (JObj ((k, v) # xs))) = insert k (set (keys_in v) \<union> set (keys_in (JObj xs)))"
  by simp

lemma keys_in_minimized:
  "p \<noteq> k \<Longrightarrow> p \<notin> set (keys_in v) \<Longrightarrow> p \<notin> set (keys_in (JObj (minimized k v)))"
  by (simp add: minimized_def)

lemma tokens_in_minimized: "tokens_in (JObj (minimized k v)) = tokens_in v"
  by (simp add: minimized_def)

lemmas keys_in_simps = keys_in_append keys_in_Cons keys_in_Nil keys_in_opt keys_in_nullable

lemma keys_in_address: "''password'' \<notin> set (keys_in (address_json a))"
  unfolding address_json_def by (simp add: keys_in_simps del: keys_in.simps(2))

lemma keys_in_socialLinks: "''password'' \<notin> set (keys_in (socialLinks_json l))"
  unfolding socialLinks_json_def by (simp add: keys_in_simps del: keys_in.simps(2))

lemma getPublicProfile_unfold:
  "getPublicProfile u =
     JObj ([(''_id'', JStr (uid u))]
       @ opt_str ''firstName'' (firstName u)
       @ opt_str ''lastName'' (lastName u)
       @ opt_str ''email'' (email u)
       @ opt_num ''dateOfBirth'' (dateOfBirth u)
       @ opt_str ''phoneNumber'' (phoneNumber u)
       @ [(''gender'', JStr (gender u))]
       @ minimized ''address'' (address_json (address u))
       @ [(''profilePicture'', nullable_str (profilePicture u))]
       @ opt_str ''bio'' (bio u)
       @ [(''isActive'', JBool (isActive u)),
          (''isVerified'', JBool (isVerified u)),
          (''role'', JStr (role u))]
       @ minimized ''socialLinks'' (socialLinks_json (socialLinks u))
       @ [(''createdAt'', JNum (createdAt u)),
          (''updatedAt'', JNum (updatedAt u)),
          (''lastLoginAt'', nullable_num (lastLoginAt u))])"
  by (simp add: getPublicProfile_def toObject_def delete_key_simps)

lemma tokens_in_getPublicProfile: "tokens_in (getPublicProfile u) = []"
  unfolding getPublicProfile_unfold tokens_in_append tokens_in_opt tokens_in_minimized
  by (simp add: tokens_in_nullable tokens_in_address tokens_in_socialLinks)

lemma keys_in_getPublicProfile: "''password'' \<notin> set (keys_in (getPublicProfile u))"
  unfolding getPublicProfile_unfold
  by (simp add: keys_in_simps keys_in_minimized keys_in_address keys_in_socialLinks
        del: keys_in.simps(2))

lemma field_password_getPublicProfile: "field ''password'' (getPublicProfile u) = None"
proof -
  have "''password'' \<notin> fst ` set (delete_key ''__v'' (delete_key ''password'' (toObject u)))"
    by (auto simp: delete_key_def)
  then show ?thesis
    by (simp add: field_def getPublicProfile_def map_of_eq_None_iff)
qed

lemma error_response_failure: "n \<noteq> 200 \<Longrightarrow> n \<noteq> 201 \<Longrightarrow> error_response (failure n msg)"
  by (simp add: error_response_def failure_def respond_def)

lemma error_response_validation_failed: "error_response (validation_failed errs)"
  by (simp add: error_response_def validation_failed_def respond_def)

lemma error_response_internal_error: "error_response (internal_error err)"
  by (simp add: error_response_def internal_error_def respond_def)

lemma session_response_facts:
  "status (session_response n msg u t) = n"
  "tokens_in (json (session_response n msg u t)) = [t]"
  "''password'' \<notin> set (keys_in (json (session_response n msg u t)))"
  "field ''data'' (json (session_response n msg u t))
     = Some (JObj [(''user'', getPublicProfile u), (''token'', JTok t)])"
  by (simp_all add: session_response_def respond_def field_def tokens_in_getPublicProfile
        keys_in_getPublicProfile keys_in_Cons keys_in_Nil del: keys_in.simps(2))

lemma generateToken_Inr:
  "generateToken e i = Inr t \<Longrightarrow>
     tok_payload t = [(''userId'', i)] \<and> tok_iat t = now e div 1000
     \<and> tok_exp t = tok_iat t + 30 * 24 * 60 * 60"
  by (auto simp: generateToken_def jwt_sign_def split: if_splits)

section \<open>The responses of signup and login\<close>

lemma error_response_phone_rejection: "r \<in> set phone_rejections \<Longrightarrow> error_response r"
  by (auto simp: phone_rejections_def error_response_failure)

lemma error_response_signup_catch: "error_response (signup_catch err)"
  by (cases err)
     (simp_all add: signup_catch_def error_response_validation_failed error_response_failure
        error_response_internal_error)

lemma profilePictureBlock_Inl:
  "profilePictureBlock e path fs = (Inl r, fs') \<Longrightarrow> r = failure 500 ''Failed to upload profile picture''"
  by (auto simp: profilePictureBlock_def split: upload_result.splits sum.splits)

lemma jwt_sign_Inr:
  "jwt_sign payload secret ttl now_ms = Inr t \<Longrightarrow>
     tok_payload t = payload \<and> tok_iat t = now_ms div 1000 \<and> tok_exp t = tok_iat t + ttl"
  by (auto simp: jwt_sign_def split: if_splits)

lemma adminLogin_shape:
  "error_response (adminLogin e rq)
   \<or> (\<exists>a t. ADMIN_EMAIL e = Some a
         \<and> jwt_sign [(''userId'', ''admin''), (''email'', a), (''role'', ''admin'')]
              (JWT_SECRET e) (24 * 60 * 60) (now e) = Inr t
         \<and> status (adminLogin e rq) = 200
         \<and> tokens_in (json (adminLogin e rq)) = [t])"
  unfolding adminLogin_def adminLogin_try_def
  by (auto simp: error_response_failure error_response_internal_error respond_def
        split: option.splits sum.splits)

section \<open>C9: a failed login changes nothing\<close>

lemma login_unknown_email:
  assumes "findOne_email (users w) (b_email (req_body rq)) = None"
  shows "snd (login e w rq) = w \<and> status (fst (login e w rq)) \<in> {400, 401}
         \<and> (falsy (b_email (req_body rq)) \<or> falsy (b_password (req_body rq))
             \<or> fst (login e w rq) = failure 401 ''Invalid email or password'')"
  using assms by (simp add: login_def login_try_def status_failure)

lemma login_deactivated:
  assumes "findOne_email (users w) (b_email (req_body rq)) = Some u" and "\<not> isActive u"
  shows "snd (login e w rq) = w \<and> status (fst (login e w rq)) \<in> {400, 401}
         \<and> (falsy (b_email (req_body rq)) \<or> falsy (b_password (req_body rq))
             \<or> fst (login e w rq) = failure 401 ''Account is deactivated. Please contact support.'')"
  using assms by (simp add: login_def login_try_def status_failure)

lemma login_wrong_password:
  assumes "findOne_email (users w) (b_email (req_body rq)) = Some u"
    and "b_password (req_body rq) = Some pw" and "password u = Some h"
    and "\<not> bcrypt_compare e pw h"
  shows "snd (login e w rq) = w \<and> status (fst (login e w rq)) \<in> {400, 401}
         \<and> (falsy (b_email (req_body rq)) \<or> falsy (b_password (req_body rq))
             \<or> fst (login e w rq) = failure 401 ''Invalid email or password''
             \<or> fst (login e w rq) = failure 401 ''Account is deactivated. Please contact support.'')"
  using assms by (simp add: login_def login_try_def status_failure)

lemma login_changes_only_after_compare:
  assumes "snd (login e w rq) \<noteq> w"
  shows "\<exists>u pw h. findOne_email (users w) (b_email (req_body rq)) = Some u \<and> isActive u
           \<and> b_password (req_body rq) = Some pw \<and> password u = Some h \<and> bcrypt_compare e pw h"
  using assms unfolding login_def login_try_def
  by (auto split: if_splits option.splits sum.splits prod.splits)

text \<open>
  Claim C9. A login that fails because the email is unknown, the account is deactivated or
  the password does not match leaves the store exactly as it was, and is answered 401 (400
  when the email or the password is missing from the request). The store changes only after
  \<open>bcrypt.compare\<close> has succeeded for an active user.
\<close>

theorem failed_login_changes_nothing:
  "(findOne_email (users w) (b_email (req_body rq)) = None \<longrightarrow>
      snd (login e w rq) = w
      \<and> status (fst (login e w rq))
          = (if falsy (b_email (req_body rq)) \<or> falsy (b_password (req_body rq)) then 400 else 401))
   \<and> (\<forall>u. findOne_email (users w) (b_email (req_body rq)) = Some u \<and> \<not> isActive u \<longrightarrow>
      snd (login e w rq) = w
      \<and> status (fst (login e w rq))
          = (if falsy (b_email (req_body rq)) \<or> falsy (b_password (req_body rq)) then 400 else 401))
   \<and> (\<forall>u pw h. findOne_email (users w) (b_email (req_body rq)) = Some u
          \<and> b_password (req_body rq) = Some pw \<and> password u = Some h
          \<and> \<not> bcrypt_compare e pw h \<longrightarrow>
      snd (login e w rq) = w
      \<and> status (fst (login e w rq))
          = (if falsy (b_email (req_body rq)) \<or> falsy (b_password (req_body rq)) then 400 else 401))
   \<and> (snd (login e w rq) \<noteq> w \<longrightarrow>
        (\<exists>u pw h. findOne_email (users w) (b_email (req_body rq)) = Some u \<and> isActive u
           \<and> b_password (req_body rq) = Some pw \<and> password u = Some h
           \<and> bcrypt_compare e pw h))"
proof -
  have A: "findOne_email (users w) (b_email (req_body rq)) = None \<longrightarrow>
      snd (login e w rq) = w
      \<and> status (fst (login e w rq))
          = (if falsy (b_email (req_body rq)) \<or> falsy (b_password (req_body rq)) then 400 else 401)"
    by (simp add: login_def login_try_def status_failure)
  have B: "\<forall>u. findOne_email (users w) (b_email (req_body rq)) = Some u \<and> \<not> isActive u \<longrightarrow>
      snd (login e w rq) = w
      \<and> status (fst (login e w rq))
          = (if falsy (b_email (req_body rq)) \<or> falsy (b_password (req_body rq)) then 400 else 401)"
    by (auto simp: login_def login_try_def status_failure)
  have C: "\<forall>u pw h. findOne_email (users w) (b_email (req_body rq)) = Some u
          \<and> b_password (req_body rq) = Some pw \<and> password u = Some h
          \<and> \<not> bcrypt_compare e pw h \<longrightarrow>
      snd (login e w rq) = w
      \<and> status (fst (login e w rq))
          = (if falsy (b_email (req_body rq)) \<or> falsy (b_password (req_body rq)) then 400 else 401)"
    by (auto simp: login_def login_try_def status_failure)
  have D: "snd (login e w rq) \<noteq> w \<longrightarrow>
        (\<exists>u pw h. findOne_email (users w) (b_email (req_body rq)) = Some u \<and> isActive u
           \<and> b_password (req_body rq) = Some pw \<and> password u = Some h
           \<and> bcrypt_compare e pw h)"
    using login_changes_only_after_compare by blast
  show ?thesis by (rule conjI [OF A conjI [OF B conjI [OF C D]]])
qed

theorem failed_login_changes_nothing_witness:
  "snd (login demo_env demo_world
          (request_of (empty_body\<lparr>b_email := Some ''no@ex.io'', b_password := Some ''guess''\<rparr>)))
     = demo_world
   \<and> status (fst (login demo_env demo_world
          (request_of (empty_body\<lparr>b_email := Some ''no@ex.io'', b_password := Some ''guess''\<rparr>))))
     = 401
   \<and> snd (login demo_env demo_world
          (request_of (empty_body\<lparr>b_email := Some ''al@ex.io'', b_password := Some ''guess''\<rparr>)))
     = demo_world
   \<and> status (fst (login demo_env demo_world
          (request_of (empty_body\<lparr>b_email := Some ''al@ex.io'', b_password := Some ''guess''\<rparr>))))
     = 401"
proof -
  let ?rq1 = "request_of (empty_body\<lparr>b_email := Some ''no@ex.io'', b_password := Some ''guess''\<rparr>)"
  let ?rq2 = "request_of (empty_body\<lparr>b_email := Some ''al@ex.io'', b_password := Some ''guess''\<rparr>)"
  have h1: "findOne_email (users demo_world) (b_email (req_body ?rq1)) = None"
    by code_simp
  have h2: "findOne_email (users demo_world) (b_email (req_body ?rq2)) = Some alice"
    by code_simp
  have h3: "b_password (req_body ?rq2) = Some ''guess''"
    by (simp add: request_of_def)
  have h4: "password alice = Some (demo_hash ''wonderland'')"
    by (simp add: alice_def)
  have h5: "\<not> bcrypt_compare demo_env ''guess'' (demo_hash ''wonderland'')"
    by code_simp
  have h6: "\<not> falsy (b_email (req_body ?rq1))" "\<not> falsy (b_password (req_body ?rq1))"
    "\<not> falsy (b_email (req_body ?rq2))" "\<not> falsy (b_password (req_body ?rq2))"
    by (simp_all add: request_of_def falsy_def)
  from failed_login_changes_nothing [of demo_world ?rq1 demo_env] h1 h6
  have r1: "snd (login demo_env demo_world ?rq1) = demo_world"
    "status (fst (login demo_env demo_world ?rq1)) = 401" by simp_all
  from failed_login_changes_nothing [of demo_world ?rq2 demo_env] h2 h3 h4 h5 h6
  have r2: "snd (login demo_env demo_world ?rq2) = demo_world"
    "status (fst (login demo_env demo_world ?rq2)) = 401" by auto
  from r1 r2 show ?thesis by simp
qed

section \<open>C4 and C7: admin login\<close>

lemma adminLogin_missing_field:
  "falsy (b_email (req_body rq)) \<or> falsy (b_password (req_body rq)) \<Longrightarrow>
     adminLogin e rq = failure 400 ''Email and password are required''"
  by (auto simp: adminLogin_def adminLogin_try_def)

lemma adminLogin_unconfigured:
  assumes "\<not> falsy (b_email (req_body rq))" and "\<not> falsy (b_password (req_body rq))"
    and "falsy (ADMIN_EMAIL e) \<or> falsy (ADMIN_PASSWORD e)"
  shows "adminLogin e rq = failure 500 ''Admin configuration error''"
  using assms
  by (auto simp: adminLogin_def adminLogin_try_def falsy_def split: option.splits)

lemma adminLogin_mismatch:
  assumes "\<not> falsy (b_email (req_body rq))" and "\<not> falsy (b_password (req_body rq))"
    and "\<not> falsy (ADMIN_EMAIL e)" and "\<not> falsy (ADMIN_PASSWORD e)"
    and "b_email (req_body rq) \<noteq> ADMIN_EMAIL e \<or> b_password (req_body rq) \<noteq> ADMIN_PASSWORD e"
  shows "adminLogin e rq = failure 401 ''Invalid admin credentials''"
  using assms
  by (auto simp: adminLogin_def adminLogin_try_def falsy_def split: option.splits)

text \<open>
  Claim C4, as amended. With the admin pair configured, take two requests that both carry a
  non-empty email and a non-empty password, one with the configured email and another
  password, one with the configured password and another email. Both get the same response:
  401 with the message \<open>Invalid admin credentials\<close>. (A request whose email or password is
  empty is answered 400 before the credentials are looked at.)
\<close>

theorem admin_login_rejections_alike:
  assumes "\<not> falsy (ADMIN_EMAIL e)" and "\<not> falsy (ADMIN_PASSWORD e)"
    and "b_email (req_body rq1) = ADMIN_EMAIL e"
    and "\<not> falsy (b_password (req_body rq1))"
    and "b_password (req_body rq1) \<noteq> ADMIN_PASSWORD e"
    and "b_password (req_body rq2) = ADMIN_PASSWORD e"
    and "\<not> falsy (b_email (req_body rq2))"
    and "b_email (req_body rq2) \<noteq> ADMIN_EMAIL e"
  shows "adminLogin e rq1 = adminLogin e rq2
         \<and> adminLogin e rq1 = failure 401 ''Invalid admin credentials''
         \<and> status (adminLogin e rq1) = 401
         \<and> json (adminLogin e rq1)
             = JObj [(''success'', JBool False), (''message'', JStr ''Invalid admin credentials'')]"
proof -
  have "adminLogin e rq1 = failure 401 ''Invalid admin credentials''"
    using assms by (intro adminLogin_mismatch) simp_all
  moreover have "adminLogin e rq2 = failure 401 ''Invalid admin credentials''"
    using assms by (intro adminLogin_mismatch) simp_all
  ultimately show ?thesis by (simp add: failure_def respond_def)
qed

theorem admin_login_rejections_alike_witness:
  "adminLogin demo_env (request_of
      (empty_body\<lparr>b_email := Some ''admin@example.com'', b_password := Some ''guess''\<rparr>))
   = adminLogin demo_env (request_of
      (empty_body\<lparr>b_email := Some ''eve@ex.io'', b_password := Some ''admin-pass''\<rparr>))
   \<and> status (adminLogin demo_env (request_of
      (empty_body\<lparr>b_email := Some ''admin@example.com'', b_password := Some ''guess''\<rparr>))) = 401"
proof -
  let ?rq1 = "request_of
      (empty_body\<lparr>b_email := Some ''admin@example.com'', b_password := Some ''guess''\<rparr>)"
  let ?rq2 = "request_of
      (empty_body\<lparr>b_email := Some ''eve@ex.io'', b_password := Some ''admin-pass''\<rparr>)"
  have h1: "\<not> falsy (ADMIN_EMAIL demo_env)" and h2: "\<not> falsy (ADMIN_PASSWORD demo_env)"
    by (simp_all add: demo_env_def falsy_def)
  have h3: "b_email (req_body ?rq1) = ADMIN_EMAIL demo_env"
    and h4: "\<not> falsy (b_password (req_body ?rq1))"
    and h5: "b_password (req_body ?rq1) \<noteq> ADMIN_PASSWORD demo_env"
    by (simp_all add: demo_env_def request_of_def falsy_def)
  have h6: "b_password (req_body ?rq2) = ADMIN_PASSWORD demo_env"
    and h7: "\<not> falsy (b_email (req_body ?rq2))"
    and h8: "b_email (req_body ?rq2) \<noteq> ADMIN_EMAIL demo_env"
    by (simp_all add: demo_env_def request_of_def falsy_def)
  from admin_login_rejections_alike [OF h1 h2 h3 h4 h5 h6 h7 h8]
  have a: "adminLogin demo_env ?rq1 = adminLogin demo_env ?rq2"
    and b: "status (adminLogin demo_env ?rq1) = 401" by blast+
  show ?thesis by (rule conjI [OF a b])
qed

theorem admin_login_rejections_alike_counterexample:
  "b_email (req_body (request_of
      (empty_body\<lparr>b_email := Some ''admin@example.com'', b_password := Some []\<rparr>)))
     = ADMIN_EMAIL demo_env
   \<and> b_password (req_body (request_of
      (empty_body\<lparr>b_email := Some ''admin@example.com'', b_password := Some []\<rparr>)))
     \<noteq> ADMIN_PASSWORD demo_env
   \<and> adminLogin demo_env (request_of
      (empty_body\<lparr>b_email := Some ''admin@example.com'', b_password := Some []\<rparr>))
     = failure 400 ''Email and password are required''
   \<and> adminLogin demo_env (request_of
      (empty_body\<lparr>b_email := Some ''eve@ex.io'', b_password := Some ''admin-pass''\<rparr>))
     = failure 401 ''Invalid admin credentials''"
  by code_simp

text \<open>
  Claim C7, as amended. When the admin email or the admin password is not configured (unset
  or empty), an admin login that carries a non-empty email and password is answered 500 with
  the message \<open>Admin configuration error\<close>; one that does not is answered 400. Either way the
  response is the same whatever the configured values are, its status is not 200 and its
  body holds no token.
\<close>

theorem admin_login_unconfigured:
  assumes "falsy (ADMIN_EMAIL e) \<or> falsy (ADMIN_PASSWORD e)"
  shows "adminLogin e rq
           = (if falsy (b_email (req_body rq)) \<or> falsy (b_password (req_body rq))
              then failure 400 ''Email and password are required''
              else failure 500 ''Admin configuration error'')
         \<and> status (adminLogin e rq) \<noteq> 200
         \<and> tokens_in (json (adminLogin e rq)) = []
         \<and> (\<forall>e'. falsy (ADMIN_EMAIL e') \<or> falsy (ADMIN_PASSWORD e') \<longrightarrow>
               adminLogin e' rq = adminLogin e rq)"
proof -
  have r: "\<And>e'. falsy (ADMIN_EMAIL e') \<or> falsy (ADMIN_PASSWORD e') \<Longrightarrow>
      adminLogin e' rq
           = (if falsy (b_email (req_body rq)) \<or> falsy (b_password (req_body rq))
              then failure 400 ''Email and password are required''
              else failure 500 ''Admin configuration error'')"
    using adminLogin_missing_field adminLogin_unconfigured by auto
  have "status (adminLogin e rq) \<noteq> 200" "tokens_in (json (adminLogin e rq)) = []"
    using r [OF assms] by (auto simp: failure_def respond_def)
  with r [OF assms] r show ?thesis by simp
qed

theorem admin_login_unconfigured_witness:
  "adminLogin unconfigured_env (request_of
      (empty_body\<lparr>b_email := Some ''admin@example.com'', b_password := Some ''guess''\<rparr>))
     = failure 500 ''Admin configuration error''
   \<and> tokens_in (json (adminLogin unconfigured_env (request_of
      (empty_body\<lparr>b_email := Some ''admin@example.com'', b_password := Some ''guess''\<rparr>)))) = []"
proof -
  let ?rq = "request_of
      (empty_body\<lparr>b_email := Some ''admin@example.com'', b_password := Some ''guess''\<rparr>)"
  have h: "falsy (ADMIN_EMAIL unconfigured_env) \<or> falsy (ADMIN_PASSWORD unconfigured_env)"
    by (simp add: unconfigured_env_def falsy_def)
  have f: "\<not> (falsy (b_email (req_body ?rq)) \<or> falsy (b_password (req_body ?rq)))"
    by (simp add: request_of_def falsy_def)
  from admin_login_unconfigured [OF h, of ?rq] f
  have a: "adminLogin unconfigured_env ?rq = failure 500 ''Admin configuration error''"
    and b: "tokens_in (json (adminLogin unconfigured_env ?rq)) = []" by auto
  show ?thesis by (rule conjI [OF a b])
qed

theorem admin_login_unconfigured_counterexample:
  "ADMIN_EMAIL unconfigured_env = None \<and> ADMIN_PASSWORD unconfigured_env = None
   \<and> adminLogin unconfigured_env (request_of (empty_body\<lparr>b_email := Some ''admin@example.com''\<rparr>))
       = failure 400 ''Email and password are required''
   \<and> status (adminLogin unconfigured_env
        (request_of (empty_body\<lparr>b_email := Some ''admin@example.com''\<rparr>))) = 400"
  by code_simp

section \<open>C10: an admin's own account\<close>

text \<open>
  What the guards do achieve: when the id in the route is, as a string, the principal's id,
  \<open>deleteUser\<close> changes nothing (and answers 400 if the record exists, 404 if it does not,
  500 if the id is not an ObjectId); \<open>toggleUserStatus\<close> likewise unless it is asked to
  activate; and \<open>bulkOperations\<close> answers 400 and changes nothing when the list holds that
  string.
\<close>

lemma deleteUser_own_id:
  assumes "req_id rq = p_id (req_user rq)"
  shows "snd (deleteUser w rq) = w
         \<and> status (fst (deleteUser w rq))
             = (case findById (users w) (req_id rq) of
                  Inl err \<Rightarrow> 500 | Inr None \<Rightarrow> 404 | Inr (Some u) \<Rightarrow> 400)"
  using assms
  by (simp add: deleteUser_def deleteUser_try_def status_failure status_internal_error
        split: sum.splits option.splits)

lemma toggleUserStatus_own_id:
  assumes "req_id rq = p_id (req_user rq)" and "b_isActive (req_body rq) \<noteq> Some True"
  shows "snd (toggleUserStatus e w rq) = w
         \<and> status (fst (toggleUserStatus e w rq))
             = (case findById (users w) (req_id rq) of
                  Inl err \<Rightarrow> 500 | Inr None \<Rightarrow> 404 | Inr (Some u) \<Rightarrow> 400)"
  using assms
  by (simp add: toggleUserStatus_def toggleUserStatus_try_def status_failure
        status_internal_error split: sum.splits option.splits)

lemma bulkOperations_own_id:
  assumes "b_userIds (req_body rq) = Some userIds" and "p_id (req_user rq) \<in> set userIds"
  shows "snd (bulkOperations e w rq) = w \<and> status (fst (bulkOperations e w rq)) = 400"
  using assms
  by (auto simp: bulkOperations_def bulkOperations_try_def status_failure
        split: option.splits)

text \<open>
  Claim C10 fails on the code. The guards compare the route string with
  \<open>req.user._id.toString()\<close>, while the store casts the route string to an ObjectId. Alice, a
  stored admin, names her own id in upper case: the string differs from her id, the cast
  gives her id, and \<open>deleteUser\<close> deletes her account, \<open>toggleUserStatus\<close> deactivates it and
  \<open>bulkOperations\<close> deletes it, each with status 200. And for the principal of an admin
  token, whose id \<open>admin\<close> is no ObjectId, the lookup that precedes the guard throws: deleting
  \<open>admin\<close> is answered 500, not 400.
\<close>

theorem own_account_guard_bypassed:
  "castObjectId ''65F0C0FFEE0000000000A11C'' = Inr (p_id alice_principal)
   \<and> uid alice = p_id alice_principal
   \<and> (case deleteUser demo_world
             ((request_of empty_body)\<lparr>req_id := ''65F0C0FFEE0000000000A11C'',
                                        req_user := alice_principal\<rparr>) of
         (res, w') \<Rightarrow> status res = 200 \<and> users w' = [])
   \<and> (case toggleUserStatus demo_env demo_world
             ((request_of (empty_body\<lparr>b_isActive := Some False\<rparr>))
                \<lparr>req_id := ''65F0C0FFEE0000000000A11C'', req_user := alice_principal\<rparr>) of
         (res, w') \<Rightarrow> status res = 200 \<and> map isActive (users w') = [False])
   \<and> (case bulkOperations demo_env demo_world
             ((request_of (empty_body\<lparr>b_operation := Some ''delete'',
                                       b_userIds := Some [''65F0C0FFEE0000000000A11C'']\<rparr>))
                \<lparr>req_user := alice_principal\<rparr>) of
         (res, w') \<Rightarrow> status res = 200 \<and> users w' = [])
   \<and> status (fst (deleteUser demo_world
         ((request_of empty_body)\<lparr>req_id := ''admin'', req_user := admin_sentinel\<rparr>))) = 500"
  by code_simp

section \<open>C6: how validation failures are reported\<close>

lemma validate_paths_gen:
  "map fst (concat (map (\<lambda>pf. case snd pf u of None \<Rightarrow> [] | Some m \<Rightarrow> [(fst pf, m)]) ps))
   = map fst (filter (\<lambda>pf. snd pf u \<noteq> None) ps)"
  by (induction ps) (auto split: option.splits)

lemma validate_paths: "map fst (validate now_ms u) = invalid_paths now_ms u"
  by (simp add: validate_def invalid_paths_def validate_paths_gen)

lemma validate_Nil_iff: "validate now_ms u = [] \<longleftrightarrow> invalid_paths now_ms u = []"
  using validate_paths [of now_ms u] by (metis map_is_Nil_conv)

lemma schema_paths_distinct: "distinct (map fst (schema_paths now_ms))"
  by (simp add: schema_paths_def)

lemma invalid_paths_distinct: "distinct (invalid_paths now_ms u)"
  unfolding invalid_paths_def using schema_paths_distinct by (rule distinct_map_filter)

lemma validate_messages:
  "(p, m) \<in> set (validate now_ms u) \<Longrightarrow> \<exists>f. (p, f) \<in> set (schema_paths now_ms) \<and> f u = Some m"
  by (auto simp: validate_def split: option.splits)

lemma picture_step_url:
  assumes "picture_step_passes e w rq" and "req_file rq = Some path"
  shows "profilePictureBlock e path (files w)
         = (Inr (case uploaded_picture e rq of Some url \<Rightarrow> url | None \<Rightarrow> []), files w - {path})
         \<and> uploaded_picture e rq \<noteq> None"
  using assms
  by (auto simp: picture_step_passes_def uploaded_picture_def profilePictureBlock_def
        uploadToCloudinary_def unlinkSync_def split: sum.splits)

lemma signup_try_past_picture:
  assumes "picture_step_passes e w rq"
  shows "signup_try e w rq
         = signup_checks e (after_picture w rq) (req_body rq) (uploaded_picture e rq)"
proof (cases "req_file rq")
  case None
  then show ?thesis by (simp add: signup_try_def after_picture_def uploaded_picture_def)
next
  case (Some path)
  from picture_step_url [OF assms Some] Some show ?thesis
    by (auto simp: signup_try_def after_picture_def)
qed

lemma users_after_picture: "users (after_picture w rq) = users w"
  by (simp add: after_picture_def split: option.splits)

lemma signup_checks_past_phone:
  assumes "findOne_email (users w) (b_email b) = None" and "phone_step_passes w b"
  shows "signup_checks e w b pic = signup_create e w b (processed_phone b) pic"
  using assms
  by (auto simp: signup_checks_def phone_step_passes_def processed_phone_def
        processPhoneNumber_accepts split: option.splits)

lemma phone_step_after_picture:
  "phone_step_passes (after_picture w rq) b = phone_step_passes w b"
  by (simp add: phone_step_passes_def users_after_picture split: option.splits)

lemma signup_create_invalid:
  assumes "b_password b = Some pw"
    and "validate (now e) (new_User e b (bcrypt_hash e pw) p pic) \<noteq> []"
  shows "signup_create e w b p pic
         = (Inl (ValidationError (validate (now e) (new_User e b (bcrypt_hash e pw) p pic))), w)"
  using assms by (simp add: signup_create_def save_new_def)

lemma signup_invalid_document:
  assumes "picture_step_passes e w rq"
    and "findOne_email (users w) (b_email (req_body rq)) = None"
    and "phone_step_passes w (req_body rq)"
    and "b_password (req_body rq) = Some pw"
    and "invalid_paths (now e) (signup_document e rq pw) \<noteq> []"
  shows "signup e w rq
         = (validation_failed (validate (now e) (signup_document e rq pw)), after_picture w rq)"
proof -
  have v: "validate (now e) (signup_document e rq pw) \<noteq> []"
    using assms(5) validate_Nil_iff by blast
  have "signup_try e w rq
        = signup_create e (after_picture w rq) (req_body rq) (processed_phone (req_body rq))
            (uploaded_picture e rq)"
    using assms by (simp add: signup_try_past_picture signup_checks_past_phone
        users_after_picture phone_step_after_picture)
  also have "\<dots> = (Inl (ValidationError (validate (now e) (signup_document e rq pw))),
                   after_picture w rq)"
    using signup_create_invalid [OF assms(4)] v by (simp add: signup_document_def)
  finally show ?thesis by (simp add: signup_def signup_catch_def)
qed

lemma editProfile_try_past_picture:
  assumes "picture_step_passes e w rq"
  shows "editProfile_try e w rq = editProfile_checks e (after_picture w rq) rq (uploaded_picture e rq)"
proof (cases "req_file rq")
  case None
  then show ?thesis by (simp add: editProfile_try_def after_picture_def uploaded_picture_def)
next
  case (Some path)
  from picture_step_url [OF assms Some] Some show ?thesis
    by (auto simp: editProfile_try_def after_picture_def)
qed

lemma editProfile_checks_past_phone:
  assumes "edit_phone_step_passes w rq"
  shows "editProfile_checks e w rq pic = editProfile_update e w rq (processed_phone (req_body rq)) pic"
  using assms
  by (auto simp: editProfile_checks_def edit_phone_step_passes_def processed_phone_def
        processPhoneNumber_accepts split: option.splits)

lemma edit_phone_step_after_picture:
  "edit_phone_step_passes (after_picture w rq) rq = edit_phone_step_passes w rq"
  by (simp add: edit_phone_step_passes_def users_after_picture split: option.splits)

lemma editProfile_update_invalid:
  assumes "isValidObjectId (p_id (req_user rq))"
    and "validate_update (now e) (editProfile_paths (req_body rq) p)
           (editProfile_updateData (req_body rq) p pic blank_user) \<noteq> []"
  shows "editProfile_update e w rq p pic
         = (Inl (ValidationError
              (validate_update (now e) (editProfile_paths (req_body rq) p)
                 (editProfile_updateData (req_body rq) p pic blank_user))), w)"
  using assms
  by (simp add: editProfile_update_def findByIdAndUpdate_def castObjectId_def)

lemma cleanup_after_picture:
  "cleanup_request_file rq (after_picture w rq) = after_picture w rq"
  by (simp add: cleanup_request_file_def after_picture_def cleanupLocalFile_def existsSync_def
        split: option.splits)

lemma editProfile_invalid_update:
  assumes "picture_step_passes e w rq" and "edit_phone_step_passes w rq"
    and "isValidObjectId (p_id (req_user rq))" and "editProfile_errors e rq \<noteq> []"
  shows "editProfile e w rq = (validation_failed (editProfile_errors e rq), after_picture w rq)"
proof -
  have "editProfile_try e w rq
        = editProfile_update e (after_picture w rq) rq (processed_phone (req_body rq))
            (uploaded_picture e rq)"
    using assms(1,2)
    by (simp add: editProfile_try_past_picture editProfile_checks_past_phone
        edit_phone_step_after_picture)
  also have "\<dots> = (Inl (ValidationError (editProfile_errors e rq)), after_picture w rq)"
    using editProfile_update_invalid [OF assms(3)] assms(4)
    by (simp add: editProfile_errors_def)
  finally show ?thesis by (simp add: editProfile_def cleanup_after_picture)
qed

lemma validation_failed_fields:
  "status (validation_failed errs) = 400"
  "field ''message'' (json (validation_failed errs)) = Some (JStr ''Validation failed'')"
  "field ''errors'' (json (validation_failed errs)) = Some (JArr (map (\<lambda>err. JStr (snd err)) errs))"
  by (simp_all add: validation_failed_def respond_def field_def)

text \<open>
  Claim C6, as amended. A signup that gets past the controller's own checks (picture
  upload, registered email, phone block) and whose document the schema finds invalid is
  answered with the 400 response \<open>Validation failed\<close> whose \<open>errors\<close> array is the list of
  messages of \<open>validate\<close>; the same holds for a profile edit that gets past its picture and
  phone blocks, with the messages of its update validators. \<open>validate\<close> reports exactly the
  invalid paths, each once, each with the message of the validator that failed on it. An
  invalid phone number never reaches this report: the phone block answers it alone, with a
  single message. Nothing is stored.
\<close>

theorem validation_failures_reported_together:
  "(picture_step_passes e w rq \<and> findOne_email (users w) (b_email (req_body rq)) = None
      \<and> phone_step_passes w (req_body rq) \<and> b_password (req_body rq) = Some pw
      \<and> invalid_paths (now e) (signup_document e rq pw) \<noteq> [] \<longrightarrow>
        fst (signup e w rq) = validation_failed (validate (now e) (signup_document e rq pw))
        \<and> users (snd (signup e w rq)) = users w)
   \<and> (picture_step_passes e w rq \<and> edit_phone_step_passes w rq
      \<and> isValidObjectId (p_id (req_user rq)) \<and> editProfile_errors e rq \<noteq> [] \<longrightarrow>
        fst (editProfile e w rq) = validation_failed (editProfile_errors e rq)
        \<and> users (snd (editProfile e w rq)) = users w)
   \<and> map fst (validate now_ms u) = invalid_paths now_ms u
   \<and> distinct (invalid_paths now_ms u)
   \<and> (\<forall>p m. (p, m) \<in> set (validate now_ms u) \<longrightarrow>
          (\<exists>f. (p, f) \<in> set (schema_paths now_ms) \<and> f u = Some m))
   \<and> status (validation_failed errs) = 400
   \<and> field ''message'' (json (validation_failed errs)) = Some (JStr ''Validation failed'')
   \<and> field ''errors'' (json (validation_failed errs))
       = Some (JArr (map (\<lambda>err. JStr (snd err)) errs))"
proof (intro conjI)
  show "picture_step_passes e w rq \<and> findOne_email (users w) (b_email (req_body rq)) = None
      \<and> phone_step_passes w (req_body rq) \<and> b_password (req_body rq) = Some pw
      \<and> invalid_paths (now e) (signup_document e rq pw) \<noteq> [] \<longrightarrow>
        fst (signup e w rq) = validation_failed (validate (now e) (signup_document e rq pw))
        \<and> users (snd (signup e w rq)) = users w"
    using signup_invalid_document [of e w rq pw] by (simp add: users_after_picture)
  show "picture_step_passes e w rq \<and> edit_phone_step_passes w rq
      \<and> isValidObjectId (p_id (req_user rq)) \<and> editProfile_errors e rq \<noteq> [] \<longrightarrow>
        fst (editProfile e w rq) = validation_failed (editProfile_errors e rq)
        \<and> users (snd (editProfile e w rq)) = users w"
    using editProfile_invalid_update [of e w rq] by (simp add: users_after_picture)
  show "map fst (validate now_ms u) = invalid_paths now_ms u"
    by (rule validate_paths)
  show "distinct (invalid_paths now_ms u)"
    by (rule invalid_paths_distinct)
  show "\<forall>p m. (p, m) \<in> set (validate now_ms u) \<longrightarrow>
          (\<exists>f. (p, f) \<in> set (schema_paths now_ms) \<and> f u = Some m)"
    using validate_messages by blast
qed (rule validation_failed_fields)+

theorem validation_failures_reported_together_witness:
  "fst (signup demo_env demo_world
          (request_of (bob_body\<lparr>b_firstName := None, b_email := Some ''bad''\<rparr>)))
     = validation_failed [(''firstName'', ''First name is required''),
                          (''email'', ''Please enter a valid email'')]
   \<and> users (snd (signup demo_env demo_world
          (request_of (bob_body\<lparr>b_firstName := None, b_email := Some ''bad''\<rparr>))))
     = users demo_world"
proof -
  let ?rq = "request_of (bob_body\<lparr>b_firstName := None, b_email := Some ''bad''\<rparr>)"
  have h1: "picture_step_passes demo_env demo_world ?rq"
    by (simp add: picture_step_passes_def request_of_def)
  have h2: "findOne_email (users demo_world) (b_email (req_body ?rq)) = None"
    by code_simp
  have h3: "phone_step_passes demo_world (req_body ?rq)"
    by code_simp
  have h4: "b_password (req_body ?rq) = Some ''secret''"
    by (simp add: request_of_def bob_body_def)
  have h5: "validate (now demo_env) (signup_document demo_env ?rq ''secret'')
            = [(''firstName'', ''First name is required''),
               (''email'', ''Please enter a valid email'')]"
    by code_simp
  have h6: "invalid_paths (now demo_env) (signup_document demo_env ?rq ''secret'') \<noteq> []"
    using h5 validate_Nil_iff by force
  from validation_failures_reported_together [of demo_env demo_world ?rq "''secret''"]
    h1 h2 h3 h4 h6
  have a: "fst (signup demo_env demo_world ?rq)
           = validation_failed (validate (now demo_env) (signup_document demo_env ?rq ''secret''))"
    and b: "users (snd (signup demo_env demo_world ?rq)) = users demo_world"
    by blast+
  from a h5 have c: "fst (signup demo_env demo_world ?rq)
     = validation_failed [(''firstName'', ''First name is required''),
                          (''email'', ''Please enter a valid email'')]" by simp
  show ?thesis by (rule conjI [OF c b])
qed

theorem validation_failures_reported_together_counterexample:
  "\<not> test email_re ''bad'' \<and> \<not> e164_shape (strip_phone ''123'')
   \<and> (case signup demo_env demo_world
             (request_of (bob_body\<lparr>b_email := Some ''bad'', b_phoneNumber := Some ''123''\<rparr>)) of
         (res, w') \<Rightarrow>
           res = failure 400 ''Phone number must start with country code (e.g., +91 for India)''
           \<and> field ''errors'' (json res) = None)"
  by code_simp

section \<open>What signup and login answer with\<close>

text \<open>
  \<open>lastLoginAt\<close> has no validator, so saving a login never fails; and the public profile does
  not depend on the \<open>password\<close> of the document.
\<close>

lemma validate_update_lastLoginAt: "validate_update now_ms [''lastLoginAt''] u = []"
proof -
  have "set (map fst (validate now_ms u)) \<subseteq> set (map fst (schema_paths now_ms))"
    unfolding validate_paths invalid_paths_def by auto
  moreover have "''lastLoginAt'' \<notin> set (map fst (schema_paths now_ms))"
    by (simp add: schema_paths_def)
  ultimately have "\<forall>pm \<in> set (validate now_ms u). fst pm \<noteq> ''lastLoginAt''"
    by (metis image_eqI set_map subsetD)
  then show ?thesis by (simp add: validate_update_def filter_empty_conv)
qed

lemma getPublicProfile_password: "getPublicProfile (u\<lparr>password := p\<rparr>) = getPublicProfile u"
  by (simp add: getPublicProfile_unfold)

lemma save_loaded_lastLoginAt:
  "save_loaded e us [''lastLoginAt''] u
   = Inr (u\<lparr>updatedAt := now e\<rparr>, map (\<lambda>v. if uid v = uid u then u\<lparr>updatedAt := now e\<rparr> else v) us)"
  by (simp add: save_loaded_def validate_update_lastLoginAt)

lemma findOne_email_Some:
  "findOne_email us a = Some u \<Longrightarrow> u \<in> set us"
  by (auto simp: findOne_email_def find_Some_iff split: option.splits)

lemma signup_create_shape:
  assumes "signup_create e w b p pic = (Inr r, w')"
  shows "\<exists>u pw t. b_password b = Some pw \<and> password u = Some (bcrypt_hash e pw)
           \<and> uid u = new_object_id e
           \<and> email u = map_option (\<lambda>a. toLowerCase (trim a)) (b_email b)
           \<and> users w' = users w @ [u]
           \<and> r = session_response 201 ''User registered successfully'' u t
           \<and> generateToken e (uid u) = Inr t"
proof -
  from assms obtain pw saved us' t where
    p: "b_password b = Some pw"
    and s: "save_new e (users w) (new_User e b (bcrypt_hash e pw) p pic) = Inr (saved, us')"
    and g: "generateToken e (uid saved) = Inr t"
    and r: "r = session_response 201 ''User registered successfully'' saved t"
    and w: "w' = w\<lparr>users := us'\<rparr>"
    unfolding signup_create_def session_response_def
    by (auto split: option.splits sum.splits prod.splits)
  from s have "us' = users w @ [saved]" "password saved = Some (bcrypt_hash e pw)"
    "uid saved = new_object_id e"
    "email saved = map_option (\<lambda>a. toLowerCase (trim a)) (b_email b)"
    by (auto simp: save_new_def new_User_def split: if_splits)
  with p g r w show ?thesis by auto
qed

lemma login_succeeds:
  assumes "findOne_email (users w) (b_email (req_body rq)) = Some found"
    and "isActive found"
    and "\<not> falsy (b_email (req_body rq))"
    and "b_password (req_body rq) = Some pw" and "pw \<noteq> []"
    and "password found = Some h" and "bcrypt_compare e pw h"
    and "generateToken e (uid found) = Inr t"
  shows "login e w rq =
     (session_response 200 ''Login successful''
        (found\<lparr>lastLoginAt := Some (now e), updatedAt := now e\<rparr>) t,
      w\<lparr>users := map (\<lambda>v. if uid v = uid found
                             then found\<lparr>lastLoginAt := Some (now e), updatedAt := now e\<rparr> else v)
                     (users w)\<rparr>)"
  using assms
  by (auto simp: login_def login_try_def save_loaded_lastLoginAt session_response_def falsy_def)

lemma login_try_shape:
  assumes "login_try e w rq = (Inr r, w')"
  shows "error_response r
         \<or> (\<exists>found pw h t. findOne_email (users w) (b_email (req_body rq)) = Some found
               \<and> isActive found
               \<and> b_password (req_body rq) = Some pw \<and> password found = Some h
               \<and> bcrypt_compare e pw h
               \<and> r = session_response 200 ''Login successful''
                       (found\<lparr>lastLoginAt := Some (now e), updatedAt := now e\<rparr>) t
               \<and> users w' = map (\<lambda>v. if uid v = uid found
                             then found\<lparr>lastLoginAt := Some (now e), updatedAt := now e\<rparr> else v)
                     (users w)
               \<and> generateToken e (uid found) = Inr t)"
proof (cases "status r = 200")
  case False
  with assms have "\<exists>n msg. r = failure n msg \<and> n \<noteq> 200 \<and> n \<noteq> 201"
    unfolding login_try_def
    by (auto simp: status_respond split: if_splits option.splits sum.splits prod.splits)
  then show ?thesis using error_response_failure by blast
next
  case True
  from assms True have nf: "\<not> falsy (b_email (req_body rq))" "\<not> falsy (b_password (req_body rq))"
    by (auto simp: login_try_def status_failure split: if_splits)
  from nf(2) obtain pw where p: "b_password (req_body rq) = Some pw" by (auto simp: falsy_def)
  obtain found where f: "findOne_email (users w) (b_email (req_body rq)) = Some found"
    using assms True nf by (cases "findOne_email (users w) (b_email (req_body rq))")
      (auto simp: login_try_def status_failure)
  have a: "isActive found"
    using assms True nf f by (auto simp: login_try_def status_failure split: if_splits)
  obtain hashed where h: "password found = Some hashed"
    using assms True nf f a p by (cases "password found") (auto simp: login_try_def)
  have c: "bcrypt_compare e pw hashed"
    using assms True nf f a p h by (auto simp: login_try_def status_failure split: if_splits)
  obtain t where g: "generateToken e (uid found) = Inr t"
    using assms True nf f a p h c by (cases "generateToken e (uid found)")
      (auto simp: login_try_def save_loaded_lastLoginAt)
  from assms nf f a p h c g
  have "r = session_response 200 ''Login successful''
                  (found\<lparr>lastLoginAt := Some (now e), updatedAt := now e\<rparr>) t"
    and "w' = w\<lparr>users := map (\<lambda>v. if uid v = uid found
                             then found\<lparr>lastLoginAt := Some (now e), updatedAt := now e\<rparr> else v)
                     (users w)\<rparr>"
    by (auto simp: login_try_def save_loaded_lastLoginAt session_response_def)
  with f a p h c g show ?thesis by auto
qed

lemma signup_checks_shape:
  assumes "signup_checks e w b pic = (Inr r, w')"
  shows "error_response r
         \<or> (\<exists>u pw t. b_password b = Some pw \<and> password u = Some (bcrypt_hash e pw)
           \<and> uid u = new_object_id e
           \<and> email u = map_option (\<lambda>a. toLowerCase (trim a)) (b_email b)
           \<and> users w' = users w @ [u]
           \<and> r = session_response 201 ''User registered successfully'' u t
           \<and> generateToken e (uid u) = Inr t)"
  using assms unfolding signup_checks_def
  by (auto simp: error_response_failure dest: signup_create_shape processPhoneNumber_Inl
        error_response_phone_rejection split: if_splits option.splits sum.splits)

lemma signup_try_shape:
  assumes "signup_try e w rq = (Inr r, w')"
  shows "error_response r
         \<or> (\<exists>u pw t. b_password (req_body rq) = Some pw \<and> password u = Some (bcrypt_hash e pw)
           \<and> uid u = new_object_id e
           \<and> email u = map_option (\<lambda>a. toLowerCase (trim a)) (b_email (req_body rq))
           \<and> users w' = users w @ [u]
           \<and> r = session_response 201 ''User registered successfully'' u t
           \<and> generateToken e (uid u) = Inr t)"
proof (cases "req_file rq")
  case None
  with assms show ?thesis using signup_checks_shape by (simp add: signup_try_def)
next
  case (Some path)
  obtain x fs where b: "profilePictureBlock e path (files w) = (x, fs)"
    by (cases "profilePictureBlock e path (files w)")
  show ?thesis
  proof (cases x)
    case (Inl res)
    with b have "res = failure 500 ''Failed to upload profile picture''"
      using profilePictureBlock_Inl by blast
    with assms Some b Inl show ?thesis
      by (auto simp: signup_try_def error_response_failure)
  next
    case (Inr url)
    with assms Some b have "signup_checks e (w\<lparr>files := fs\<rparr>) (req_body rq) (Some url) = (Inr r, w')"
      by (simp add: signup_try_def)
    from signup_checks_shape [OF this] show ?thesis by simp
  qed
qed

lemma signup_shape:
  assumes "signup e w rq = (r, w')"
  shows "error_response r
         \<or> (\<exists>u pw t. b_password (req_body rq) = Some pw \<and> password u = Some (bcrypt_hash e pw)
           \<and> uid u = new_object_id e
           \<and> email u = map_option (\<lambda>a. toLowerCase (trim a)) (b_email (req_body rq))
           \<and> users w' = users w @ [u]
           \<and> r = session_response 201 ''User registered successfully'' u t
           \<and> generateToken e (uid u) = Inr t)"
proof -
  obtain x w1 where x: "signup_try e w rq = (x, w1)" by (cases "signup_try e w rq")
  show ?thesis
  proof (cases x)
    case (Inl err)
    with x assms show ?thesis by (auto simp: signup_def error_response_signup_catch)
  next
    case (Inr r1)
    with x assms have "r1 = r" "w1 = w'" by (simp_all add: signup_def)
    with x Inr show ?thesis using signup_try_shape by blast
  qed
qed

lemma login_shape:
  assumes "login e w rq = (r, w')"
  shows "error_response r
         \<or> (\<exists>found pw h t. findOne_email (users w) (b_email (req_body rq)) = Some found
               \<and> isActive found
               \<and> b_password (req_body rq) = Some pw \<and> password found = Some h
               \<and> bcrypt_compare e pw h
               \<and> r = session_response 200 ''Login successful''
                       (found\<lparr>lastLoginAt := Some (now e), updatedAt := now e\<rparr>) t
               \<and> users w' = map (\<lambda>v. if uid v = uid found
                             then found\<lparr>lastLoginAt := Some (now e), updatedAt := now e\<rparr> else v)
                     (users w)
               \<and> generateToken e (uid found) = Inr t)"
proof -
  obtain x w1 where x: "login_try e w rq = (x, w1)" by (cases "login_try e w rq")
  show ?thesis
  proof (cases x)
    case (Inl err)
    with x assms show ?thesis by (auto simp: login_def error_response_internal_error)
  next
    case (Inr r1)
    with x assms have "r1 = r" "w1 = w'" by (simp_all add: login_def)
    with x Inr show ?thesis using login_try_shape by blast
  qed
qed

lemma email_required: "invalid_paths now_ms u = [] \<Longrightarrow> email u \<noteq> None"
proof
  assume i: "invalid_paths now_ms u = []" and n: "email u = None"
  have "(''email'', \<lambda>u. first_failure
         [required ''Email is required'' (email u),
          match email_re ''Please enter a valid email'' (email u)]) \<in> set (schema_paths now_ms)"
    by (simp add: schema_paths_def)
  moreover from n have "first_failure
         [required ''Email is required'' (email u),
          match email_re ''Please enter a valid email'' (email u)] \<noteq> None"
    by (simp add: first_failure_def required_def falsy_def)
  ultimately have "''email'' \<in> set (invalid_paths now_ms u)"
    unfolding invalid_paths_iff by blast
  with i show False by simp
qed

lemma signup_succeeds:
  assumes "picture_step_passes e w rq"
    and "findOne_email (users w) (b_email (req_body rq)) = None"
    and "phone_step_passes w (req_body rq)"
    and "b_password (req_body rq) = Some pw"
    and "invalid_paths (now e) (signup_document e rq pw) = []"
    and "generateToken e (new_object_id e) = Inr t"
  shows "signup e w rq
         = (session_response 201 ''User registered successfully''
              ((signup_document e rq pw)\<lparr>updatedAt := now e\<rparr>) t,
            (after_picture w rq)\<lparr>users := users w @ [(signup_document e rq pw)\<lparr>updatedAt := now e\<rparr>]\<rparr>)"
proof -
  let ?u = "signup_document e rq pw"
  have v: "validate (now e) ?u = []" using assms(5) validate_Nil_iff by blast
  from email_required [OF assms(5)] obtain a where a: "b_email (req_body rq) = Some a"
    by (auto simp: signup_document_def new_User_def)
  then have em: "email ?u = Some (toLowerCase (trim a))"
    by (simp add: signup_document_def new_User_def)
  from assms(2) a have d: "find (\<lambda>v. email v = email ?u) (users w) = None"
    by (simp add: findOne_email_def em)
  have i: "uid ?u = new_object_id e" by (simp add: signup_document_def new_User_def)
  have "signup_try e w rq
        = signup_create e (after_picture w rq) (req_body rq) (processed_phone (req_body rq))
            (uploaded_picture e rq)"
    using assms by (simp add: signup_try_past_picture signup_checks_past_phone
        users_after_picture phone_step_after_picture)
  also have "\<dots> = (Inr (session_response 201 ''User registered successfully''
              (?u\<lparr>updatedAt := now e\<rparr>) t),
            (after_picture w rq)\<lparr>users := users w @ [?u\<lparr>updatedAt := now e\<rparr>]\<rparr>)"
    using assms(4) assms(6) v d i
    by (simp add: signup_create_def save_new_def users_after_picture session_response_def
          signup_document_def [symmetric])
  finally show ?thesis by (simp add: signup_def)
qed

lemma adminLogin_succeeds:
  assumes "ADMIN_EMAIL e = Some a" and "a \<noteq> []"
    and "ADMIN_PASSWORD e = Some p" and "p \<noteq> []"
    and "b_email (req_body rq) = Some a" and "b_password (req_body rq) = Some p"
    and "JWT_SECRET e = Some k" and "k \<noteq> []"
  shows "status (adminLogin e rq) = 200
         \<and> tokens_in (json (adminLogin e rq))
           = [\<lparr>tok_payload = [(''userId'', ''admin''), (''email'', a), (''role'', ''admin'')],
               tok_iat = now e div 1000, tok_exp = now e div 1000 + 24 * 60 * 60, tok_key = k\<rparr>]"
  using assms
  by (simp add: adminLogin_def adminLogin_try_def jwt_sign_def falsy_def respond_def)

lemma generateToken_succeeds:
  "JWT_SECRET e = Some k \<Longrightarrow> k \<noteq> [] \<Longrightarrow>
     generateToken e i = Inr \<lparr>tok_payload = [(''userId'', i)], tok_iat = now e div 1000,
                              tok_exp = now e div 1000 + 30 * 24 * 60 * 60, tok_key = k\<rparr>"
  by (simp add: generateToken_def jwt_sign_def falsy_def)

text \<open>
  The hash reaches the response of a signup only through the length the schema checks, and
  that of a login only through \<open>bcrypt.compare\<close>.
\<close>

lemma validate_password_irrelevant:
  assumes "6 \<le> length a" and "6 \<le> length b"
  shows "validate n (u\<lparr>password := Some a\<rparr>) = validate n (u\<lparr>password := Some b\<rparr>)"
proof -
  from assms have "a \<noteq> []" "b \<noteq> []" by auto
  with assms show ?thesis
    by (simp add: validate_def schema_paths_def first_failure_def required_def minlength_def
          falsy_def)
qed

lemma new_User_password:
  "new_User (e\<lparr>bcrypt_hash := h\<rparr>) b x p pic = (new_User e b y p pic)\<lparr>password := Some x\<rparr>"
  by (simp add: new_User_def)

lemma generateToken_bcrypt:
  "generateToken (e\<lparr>bcrypt_hash := h\<rparr>) i = generateToken e i"
  "generateToken (e\<lparr>bcrypt_compare := c\<rparr>) i = generateToken e i"
  by (simp_all add: generateToken_def)

lemma signup_create_hash:
  assumes "\<forall>pw. b_password b = Some pw \<longrightarrow> 6 \<le> length (bcrypt_hash e pw) \<and> 6 \<le> length (h pw)"
  shows "fst (signup_create (e\<lparr>bcrypt_hash := h\<rparr>) w b p pic) = fst (signup_create e w b p pic)"
proof (cases "b_password b")
  case None
  then show ?thesis by (simp add: signup_create_def)
next
  case (Some pw)
  let ?u = "new_User e b (bcrypt_hash e pw) p pic"
  have u2: "new_User (e\<lparr>bcrypt_hash := h\<rparr>) b (h pw) p pic = ?u\<lparr>password := Some (h pw)\<rparr>"
    by (rule new_User_password)
  have u1: "?u = ?u\<lparr>password := Some (bcrypt_hash e pw)\<rparr>" by (simp add: new_User_def)
  from assms Some have l: "6 \<le> length (bcrypt_hash e pw)" "6 \<le> length (h pw)" by auto
  have v: "validate (now e) (?u\<lparr>password := Some (h pw)\<rparr>) = validate (now e) ?u"
    using validate_password_irrelevant [OF l(2) l(1), of "now e" ?u] u1 by simp
  have g: "getPublicProfile (?u\<lparr>password := Some (h pw), updatedAt := now e\<rparr>)
           = getPublicProfile (?u\<lparr>updatedAt := now e\<rparr>)"
    by (simp add: getPublicProfile_unfold)
  show ?thesis
    unfolding signup_create_def
    by (simp add: Some u2 save_new_def v g generateToken_bcrypt split: sum.splits)
qed

lemma signup_checks_hash:
  assumes "\<forall>pw. b_password b = Some pw \<longrightarrow> 6 \<le> length (bcrypt_hash e pw) \<and> 6 \<le> length (h pw)"
  shows "fst (signup_checks (e\<lparr>bcrypt_hash := h\<rparr>) w b pic) = fst (signup_checks e w b pic)"
  unfolding signup_checks_def
  by (simp add: signup_create_hash [OF assms] split: option.splits sum.splits)

lemma profilePictureBlock_hash:
  "profilePictureBlock (e\<lparr>bcrypt_hash := h\<rparr>) path fs = profilePictureBlock e path fs"
  by (simp add: profilePictureBlock_def uploadToCloudinary_def)

lemma signup_try_hash:
  assumes "\<forall>pw. b_password (req_body rq) = Some pw \<longrightarrow>
             6 \<le> length (bcrypt_hash e pw) \<and> 6 \<le> length (h pw)"
  shows "fst (signup_try (e\<lparr>bcrypt_hash := h\<rparr>) w rq) = fst (signup_try e w rq)"
  unfolding signup_try_def
  by (simp add: signup_checks_hash [OF assms] profilePictureBlock_hash
        split: option.splits prod.splits sum.splits)

lemma fst_signup:
  "fst (signup e w rq) = (case fst (signup_try e w rq) of Inr res \<Rightarrow> res | Inl err \<Rightarrow> signup_catch err)"
  by (simp add: signup_def split: prod.splits sum.splits)

lemma signup_hash:
  assumes "\<forall>pw. b_password (req_body rq) = Some pw \<longrightarrow>
             6 \<le> length (bcrypt_hash e pw) \<and> 6 \<le> length (h pw)"
  shows "fst (signup (e\<lparr>bcrypt_hash := h\<rparr>) w rq) = fst (signup e w rq)"
  by (simp add: fst_signup signup_try_hash [OF assms])

lemma find_map_password:
  "find P (map g xs) = map_option g (find (\<lambda>x. P (g x)) xs)"
  by (induction xs) simp_all

lemma findOne_email_rehash:
  "findOne_email (map (\<lambda>u. u\<lparr>password := map_option f (password u)\<rparr>) us) a
   = map_option (\<lambda>u. u\<lparr>password := map_option f (password u)\<rparr>) (findOne_email us a)"
  by (simp add: findOne_email_def find_map_password split: option.splits)

lemma fst_login:
  "fst (login e w rq) = (case fst (login_try e w rq) of Inr res \<Rightarrow> res | Inl err \<Rightarrow> internal_error err)"
  by (simp add: login_def split: prod.splits sum.splits)

lemma login_try_rehash:
  assumes "\<forall>p h. cmp p (f h) = bcrypt_compare e p h"
  shows "fst (login_try (e\<lparr>bcrypt_compare := cmp\<rparr>)
                (w\<lparr>users := map (\<lambda>u. u\<lparr>password := map_option f (password u)\<rparr>) (users w)\<rparr>) rq)
         = fst (login_try e w rq)"
proof (cases "falsy (b_email (req_body rq)) \<or> falsy (b_password (req_body rq))")
  case True
  then show ?thesis by (auto simp: login_try_def)
next
  case nf: False
  then obtain pw where p: "b_password (req_body rq) = Some pw" by (auto simp: falsy_def)
  show ?thesis
  proof (cases "findOne_email (users w) (b_email (req_body rq))")
    case None
    with nf show ?thesis by (simp add: login_try_def findOne_email_rehash)
  next
    case (Some found)
    show ?thesis
    proof (cases "password found")
      case None
      with nf Some p show ?thesis by (simp add: login_try_def findOne_email_rehash)
    next
      case h: (Some hashed)
      have g: "getPublicProfile
                 (found\<lparr>password := Some (f hashed), lastLoginAt := Some (now e), updatedAt := now e\<rparr>)
               = getPublicProfile (found\<lparr>lastLoginAt := Some (now e), updatedAt := now e\<rparr>)"
        by (simp add: getPublicProfile_unfold)
      from nf Some p h assms show ?thesis
        by (simp add: login_try_def findOne_email_rehash save_loaded_lastLoginAt g
              generateToken_bcrypt split: sum.splits)
    qed
  qed
qed

lemma login_rehash:
  assumes "\<forall>p h. cmp p (f h) = bcrypt_compare e p h"
  shows "fst (login (e\<lparr>bcrypt_compare := cmp\<rparr>)
                (w\<lparr>users := map (\<lambda>u. u\<lparr>password := map_option f (password u)\<rparr>) (users w)\<rparr>) rq)
         = fst (login e w rq)"
  using login_try_rehash [where cmp = cmp and f = f and e = e, OF assms]
  by (simp add: fst_login)

lemma not_error_response_tokens: "t \<in> set (tokens_in (json r)) \<Longrightarrow> \<not> error_response r"
  by (auto simp: error_response_def)

lemma signup_tokens:
  assumes "t \<in> set (tokens_in (json (fst (signup e w rq))))"
  shows "(\<exists>u. users (snd (signup e w rq)) = users w @ [u] \<and> uid u = new_object_id e
            \<and> email u = map_option (\<lambda>a. toLowerCase (trim a)) (b_email (req_body rq))
            \<and> tok_payload t = [(''userId'', uid u)])
       \<and> tokens_in (json (fst (signup e w rq))) = [t]
       \<and> status (fst (signup e w rq)) = 201
       \<and> tok_iat t = now e div 1000 \<and> tok_exp t = tok_iat t + 30 * 24 * 60 * 60"
proof -
  obtain r w' where s: "signup e w rq = (r, w')" by (cases "signup e w rq")
  from assms s have "\<not> error_response r" by (simp add: not_error_response_tokens)
  with signup_shape [OF s] obtain u t' where
    u: "uid u = new_object_id e"
      "email u = map_option (\<lambda>a. toLowerCase (trim a)) (b_email (req_body rq))"
      "users w' = users w @ [u]"
    and r: "r = session_response 201 ''User registered successfully'' u t'"
    and g: "generateToken e (uid u) = Inr t'" by blast
  from assms s r have t: "t' = t" by (simp add: session_response_facts)
  from generateToken_Inr [OF g] t
  have p: "tok_payload t = [(''userId'', uid u)]" "tok_iat t = now e div 1000"
    "tok_exp t = tok_iat t + 30 * 24 * 60 * 60" by simp_all
  from s r t have q: "tokens_in (json (fst (signup e w rq))) = [t]"
    "status (fst (signup e w rq)) = 201" by (simp_all add: session_response_facts)
  from s u have "users (snd (signup e w rq)) = users w @ [u]" by simp
  with u p q show ?thesis by blast
qed

lemma login_tokens:
  assumes "t \<in> set (tokens_in (json (fst (login e w rq))))"
  shows "(\<exists>u. findOne_email (users w) (b_email (req_body rq)) = Some u
            \<and> tok_payload t = [(''userId'', uid u)])
       \<and> tokens_in (json (fst (login e w rq))) = [t]
       \<and> status (fst (login e w rq)) = 200
       \<and> tok_iat t = now e div 1000 \<and> tok_exp t = tok_iat t + 30 * 24 * 60 * 60"
proof -
  obtain r w' where s: "login e w rq = (r, w')" by (cases "login e w rq")
  from assms s have "\<not> error_response r" by (simp add: not_error_response_tokens)
  with login_shape [OF s] obtain found t' where
    f: "findOne_email (users w) (b_email (req_body rq)) = Some found"
    and r: "r = session_response 200 ''Login successful''
                  (found\<lparr>lastLoginAt := Some (now e), updatedAt := now e\<rparr>) t'"
    and g: "generateToken e (uid found) = Inr t'" by blast
  from assms s r have t: "t' = t" by (simp add: session_response_facts)
  from generateToken_Inr [OF g] t
  have p: "tok_payload t = [(''userId'', uid found)]" "tok_iat t = now e div 1000"
    "tok_exp t = tok_iat t + 30 * 24 * 60 * 60" by simp_all
  from s r t have q: "tokens_in (json (fst (login e w rq))) = [t]"
    "status (fst (login e w rq)) = 200" by (simp_all add: session_response_facts)
  from f p q show ?thesis by blast
qed

lemma adminLogin_tokens:
  assumes "t \<in> set (tokens_in (json (adminLogin e rq)))"
  shows "(\<exists>a. ADMIN_EMAIL e = Some a
            \<and> tok_payload t = [(''userId'', ''admin''), (''email'', a), (''role'', ''admin'')])
       \<and> tokens_in (json (adminLogin e rq)) = [t]
       \<and> status (adminLogin e rq) = 200
       \<and> tok_iat t = now e div 1000 \<and> tok_exp t = tok_iat t + 24 * 60 * 60"
proof -
  from assms have "\<not> error_response (adminLogin e rq)" by (rule not_error_response_tokens)
  with adminLogin_shape [of e rq] obtain a t' where
    a: "ADMIN_EMAIL e = Some a"
    and j: "jwt_sign [(''userId'', ''admin''), (''email'', a), (''role'', ''admin'')]
              (JWT_SECRET e) (24 * 60 * 60) (now e) = Inr t'"
    and q: "status (adminLogin e rq) = 200"
    and k: "tokens_in (json (adminLogin e rq)) = [t']" by blast
  from assms k have "t' = t" by simp
  with a q k jwt_sign_Inr [OF j] show ?thesis by simp
qed

lemma status_tokens:
  "status (fst (signup e w rq)) = 201 \<Longrightarrow> tokens_in (json (fst (signup e w rq))) \<noteq> []"
  "status (fst (login e w rq)) = 200 \<Longrightarrow> tokens_in (json (fst (login e w rq))) \<noteq> []"
  "status (adminLogin e rq) = 200 \<Longrightarrow> tokens_in (json (adminLogin e rq)) \<noteq> []"
proof -
  obtain r w' where s: "signup e w rq = (r, w')" by (cases "signup e w rq")
  show "status (fst (signup e w rq)) = 201 \<Longrightarrow> tokens_in (json (fst (signup e w rq))) \<noteq> []"
    using signup_shape [OF s] s by (auto simp: error_response_def session_response_facts)
  obtain q v' where l: "login e w rq = (q, v')" by (cases "login e w rq")
  show "status (fst (login e w rq)) = 200 \<Longrightarrow> tokens_in (json (fst (login e w rq))) \<noteq> []"
    using login_shape [OF l] l by (auto simp: error_response_def session_response_facts)
  show "status (adminLogin e rq) = 200 \<Longrightarrow> tokens_in (json (adminLogin e rq)) \<noteq> []"
    using adminLogin_shape [of e rq] by (auto simp: error_response_def)
qed

lemma signup_201:
  assumes "picture_step_passes e w rq"
    and "findOne_email (users w) (b_email (req_body rq)) = None"
    and "phone_step_passes w (req_body rq)"
    and "b_password (req_body rq) = Some pw"
    and "invalid_paths (now e) (signup_document e rq pw) = []"
    and "\<not> falsy (JWT_SECRET e)"
  shows "status (fst (signup e w rq)) = 201"
proof -
  from assms(6) obtain k where "JWT_SECRET e = Some k" "k \<noteq> []" by (auto simp: falsy_def)
  from signup_succeeds [OF assms(1-5) generateToken_succeeds [OF this]]
  show ?thesis by (simp add: session_response_facts)
qed

lemma login_200:
  assumes "findOne_email (users w) (b_email (req_body rq)) = Some found"
    and "isActive found"
    and "\<not> falsy (b_email (req_body rq))"
    and "b_password (req_body rq) = Some pw" and "pw \<noteq> []"
    and "password found = Some h" and "bcrypt_compare e pw h"
    and "\<not> falsy (JWT_SECRET e)"
  shows "status (fst (login e w rq)) = 200"
proof -
  from assms(8) obtain k where "JWT_SECRET e = Some k" "k \<noteq> []" by (auto simp: falsy_def)
  from login_succeeds [OF assms(1-7) generateToken_succeeds [OF this]]
  show ?thesis by (simp add: session_response_facts)
qed

lemma adminLogin_200:
  assumes "ADMIN_EMAIL e = Some a" and "a \<noteq> []"
    and "ADMIN_PASSWORD e = Some p" and "p \<noteq> []"
    and "b_email (req_body rq) = Some a" and "b_password (req_body rq) = Some p"
    and "\<not> falsy (JWT_SECRET e)"
  shows "status (adminLogin e rq) = 200"
proof -
  from assms(7) obtain k where "JWT_SECRET e = Some k" "k \<noteq> []" by (auto simp: falsy_def)
  from adminLogin_succeeds [OF assms(1-6) this] show ?thesis by simp
qed

lemma json_session_response:
  "json (session_response n msg u t)
   = JObj [(''success'', JBool True), (''message'', JStr msg),
           (''data'', JObj [(''user'', getPublicProfile u), (''token'', JTok t)])]"
  by (simp add: session_response_def respond_def)

lemma signup_201_body:
  assumes "status (fst (signup e w rq)) = 201"
  shows "\<exists>u pw t. b_password (req_body rq) = Some pw
              \<and> users (snd (signup e w rq)) = users w @ [u]
              \<and> password u = Some (bcrypt_hash e pw)
              \<and> json (fst (signup e w rq))
                  = JObj [(''success'', JBool True),
                          (''message'', JStr ''User registered successfully''),
                          (''data'', JObj [(''user'', getPublicProfile u), (''token'', JTok t)])]
              \<and> tok_payload t = [(''userId'', uid u)]
              \<and> field ''password'' (getPublicProfile u) = None"
proof -
  obtain r w' where s: "signup e w rq = (r, w')" by (cases "signup e w rq")
  from assms s have "\<not> error_response r" by (simp add: error_response_def)
  with signup_shape [OF s] obtain u pw t where
    p: "b_password (req_body rq) = Some pw" "password u = Some (bcrypt_hash e pw)"
      "users w' = users w @ [u]"
    and r: "r = session_response 201 ''User registered successfully'' u t"
    and g: "generateToken e (uid u) = Inr t" by blast
  from generateToken_Inr [OF g] have "tok_payload t = [(''userId'', uid u)]" by simp
  with p r s show ?thesis
    by (auto simp: json_session_response field_password_getPublicProfile)
qed

lemma login_200_body:
  assumes "status (fst (login e w rq)) = 200"
  shows "\<exists>found u pw h t. findOne_email (users w) (b_email (req_body rq)) = Some found
              \<and> b_password (req_body rq) = Some pw
              \<and> password found = Some h \<and> bcrypt_compare e pw h
              \<and> u = found\<lparr>lastLoginAt := Some (now e), updatedAt := now e\<rparr>
              \<and> u \<in> set (users (snd (login e w rq)))
              \<and> password u = Some h
              \<and> json (fst (login e w rq))
                  = JObj [(''success'', JBool True), (''message'', JStr ''Login successful''),
                          (''data'', JObj [(''user'', getPublicProfile u), (''token'', JTok t)])]
              \<and> tok_payload t = [(''userId'', uid u)]
              \<and> field ''password'' (getPublicProfile u) = None"
proof -
  obtain r w' where s: "login e w rq = (r, w')" by (cases "login e w rq")
  from assms s have "\<not> error_response r" by (simp add: error_response_def)
  with login_shape [OF s] obtain found pw h t where
    f: "findOne_email (users w) (b_email (req_body rq)) = Some found"
    and p: "b_password (req_body rq) = Some pw" "password found = Some h" "bcrypt_compare e pw h"
    and r: "r = session_response 200 ''Login successful''
                  (found\<lparr>lastLoginAt := Some (now e), updatedAt := now e\<rparr>) t"
    and u: "users w' = map (\<lambda>v. if uid v = uid found
                             then found\<lparr>lastLoginAt := Some (now e), updatedAt := now e\<rparr> else v)
                     (users w)"
    and g: "generateToken e (uid found) = Inr t" by blast
  let ?u = "found\<lparr>lastLoginAt := Some (now e), updatedAt := now e\<rparr>"
  from findOne_email_Some [OF f] have "?u \<in> set (users w')"
    unfolding u by (auto simp: image_iff intro: bexI [of _ found])
  with s have m: "?u \<in> set (users (snd (login e w rq)))" by simp
  from generateToken_Inr [OF g] have k: "tok_payload t = [(''userId'', uid ?u)]" by simp
  from p(2) have h: "password ?u = Some h" by simp
  from s r have j: "json (fst (login e w rq))
                  = JObj [(''success'', JBool True), (''message'', JStr ''Login successful''),
                          (''data'', JObj [(''user'', getPublicProfile ?u), (''token'', JTok t)])]"
    by (simp add: json_session_response)
  from f p m k h j field_password_getPublicProfile [of ?u] show ?thesis by blast
qed

section \<open>C3: what a token carries and how long it lives\<close>

text \<open>
  Claim C3. A response of signup, login or admin login that holds a token holds exactly that
  one and is the successful response (201, 200, 200). The token of a signup has the payload
  \<open>{userId}\<close> and nothing else, the id being that of the principal just registered: the one
  document the signup appends to the store, which has the new object id and the email of the
  request. The token of a login has the payload \<open>{userId}\<close> and nothing else, the id being that
  of the stored user with the email of the request. Both expire \<open>30 * 24 * 60 * 60\<close> seconds,
  30 days, after their \<open>iat\<close>. The token of an admin login has the payload \<open>{userId: 'admin',
  email, role: 'admin'}\<close> with the configured admin email, and expires \<open>24 * 60 * 60\<close>
  seconds, 24 hours, after its \<open>iat\<close>. In each case \<open>iat\<close> is the time of the request.
  Every successful response holds a token, and the handlers do succeed: signup for a
  request that gets past the picture and phone blocks with an unregistered email, a password
  and a document the schema accepts; login for an active stored user whose hash matches the
  non-empty password sent; admin login for the configured pair; each with the signing secret
  set.
\<close>

theorem token_payload_and_lifetime:
  "(\<forall>t \<in> set (tokens_in (json (fst (signup e w rq)))).
       (\<exists>u. users (snd (signup e w rq)) = users w @ [u] \<and> uid u = new_object_id e
            \<and> email u = map_option (\<lambda>a. toLowerCase (trim a)) (b_email (req_body rq))
            \<and> tok_payload t = [(''userId'', uid u)])
       \<and> tokens_in (json (fst (signup e w rq))) = [t]
       \<and> status (fst (signup e w rq)) = 201
       \<and> tok_iat t = now e div 1000 \<and> tok_exp t = tok_iat t + 30 * 24 * 60 * 60)
   \<and> (\<forall>t \<in> set (tokens_in (json (fst (login e w rq)))).
       (\<exists>u. findOne_email (users w) (b_email (req_body rq)) = Some u
            \<and> tok_payload t = [(''userId'', uid u)])
       \<and> tokens_in (json (fst (login e w rq))) = [t]
       \<and> status (fst (login e w rq)) = 200
       \<and> tok_iat t = now e div 1000 \<and> tok_exp t = tok_iat t + 30 * 24 * 60 * 60)
   \<and> (\<forall>t \<in> set (tokens_in (json (adminLogin e rq))).
       (\<exists>a. ADMIN_EMAIL e = Some a
            \<and> tok_payload t = [(''userId'', ''admin''), (''email'', a), (''role'', ''admin'')])
       \<and> tokens_in (json (adminLogin e rq)) = [t]
       \<and> status (adminLogin e rq) = 200
       \<and> tok_iat t = now e div 1000 \<and> tok_exp t = tok_iat t + 24 * 60 * 60)
   \<and> (status (fst (signup e w rq)) = 201 \<longrightarrow> tokens_in (json (fst (signup e w rq))) \<noteq> [])
   \<and> (status (fst (login e w rq)) = 200 \<longrightarrow> tokens_in (json (fst (login e w rq))) \<noteq> [])
   \<and> (status (adminLogin e rq) = 200 \<longrightarrow> tokens_in (json (adminLogin e rq)) \<noteq> [])
   \<and> (picture_step_passes e w rq
        \<and> findOne_email (users w) (b_email (req_body rq)) = None
        \<and> phone_step_passes w (req_body rq)
        \<and> (\<exists>pw. b_password (req_body rq) = Some pw
                 \<and> invalid_paths (now e) (signup_document e rq pw) = [])
        \<and> \<not> falsy (JWT_SECRET e)
        \<longrightarrow> status (fst (signup e w rq)) = 201)
   \<and> ((\<exists>found pw h. findOne_email (users w) (b_email (req_body rq)) = Some found
             \<and> isActive found \<and> password found = Some h
             \<and> b_password (req_body rq) = Some pw \<and> pw \<noteq> [] \<and> bcrypt_compare e pw h)
        \<and> \<not> falsy (b_email (req_body rq)) \<and> \<not> falsy (JWT_SECRET e)
        \<longrightarrow> status (fst (login e w rq)) = 200)
   \<and> ((\<exists>a p. ADMIN_EMAIL e = Some a \<and> a \<noteq> [] \<and> ADMIN_PASSWORD e = Some p \<and> p \<noteq> []
             \<and> b_email (req_body rq) = Some a \<and> b_password (req_body rq) = Some p)
        \<and> \<not> falsy (JWT_SECRET e)
        \<longrightarrow> status (adminLogin e rq) = 200)"
proof (intro conjI impI ballI)
  fix t assume "t \<in> set (tokens_in (json (fst (signup e w rq))))"
  from signup_tokens [OF this]
  show "\<exists>u. users (snd (signup e w rq)) = users w @ [u] \<and> uid u = new_object_id e
            \<and> email u = map_option (\<lambda>a. toLowerCase (trim a)) (b_email (req_body rq))
            \<and> tok_payload t = [(''userId'', uid u)]"
    and "tokens_in (json (fst (signup e w rq))) = [t]"
    and "status (fst (signup e w rq)) = 201"
    and "tok_iat t = now e div 1000" and "tok_exp t = tok_iat t + 30 * 24 * 60 * 60"
    by blast+
next
  fix t assume "t \<in> set (tokens_in (json (fst (login e w rq))))"
  from login_tokens [OF this]
  show "\<exists>u. findOne_email (users w) (b_email (req_body rq)) = Some u
            \<and> tok_payload t = [(''userId'', uid u)]"
    and "tokens_in (json (fst (login e w rq))) = [t]"
    and "status (fst (login e w rq)) = 200"
    and "tok_iat t = now e div 1000" and "tok_exp t = tok_iat t + 30 * 24 * 60 * 60"
    by blast+
next
  fix t assume "t \<in> set (tokens_in (json (adminLogin e rq)))"
  from adminLogin_tokens [OF this]
  show "\<exists>a. ADMIN_EMAIL e = Some a
            \<and> tok_payload t = [(''userId'', ''admin''), (''email'', a), (''role'', ''admin'')]"
    and "tokens_in (json (adminLogin e rq)) = [t]"
    and "status (adminLogin e rq) = 200"
    and "tok_iat t = now e div 1000" and "tok_exp t = tok_iat t + 24 * 60 * 60"
    by blast+
next
  assume "status (fst (signup e w rq)) = 201"
  then show "tokens_in (json (fst (signup e w rq))) \<noteq> []" by (rule status_tokens)
next
  assume "status (fst (login e w rq)) = 200"
  then show "tokens_in (json (fst (login e w rq))) \<noteq> []" by (rule status_tokens)
next
  assume "status (adminLogin e rq) = 200"
  then show "tokens_in (json (adminLogin e rq)) \<noteq> []" by (rule status_tokens)
next
  assume "picture_step_passes e w rq
        \<and> findOne_email (users w) (b_email (req_body rq)) = None
        \<and> phone_step_passes w (req_body rq)
        \<and> (\<exists>pw. b_password (req_body rq) = Some pw
                 \<and> invalid_paths (now e) (signup_document e rq pw) = [])
        \<and> \<not> falsy (JWT_SECRET e)"
  then show "status (fst (signup e w rq)) = 201" using signup_201 by blast
next
  assume "(\<exists>found pw h. findOne_email (users w) (b_email (req_body rq)) = Some found
             \<and> isActive found \<and> password found = Some h
             \<and> b_password (req_body rq) = Some pw \<and> pw \<noteq> [] \<and> bcrypt_compare e pw h)
        \<and> \<not> falsy (b_email (req_body rq)) \<and> \<not> falsy (JWT_SECRET e)"
  then show "status (fst (login e w rq)) = 200" using login_200 by blast
next
  assume "(\<exists>a p. ADMIN_EMAIL e = Some a \<and> a \<noteq> [] \<and> ADMIN_PASSWORD e = Some p \<and> p \<noteq> []
             \<and> b_email (req_body rq) = Some a \<and> b_password (req_body rq) = Some p)
        \<and> \<not> falsy (JWT_SECRET e)"
  then show "status (adminLogin e rq) = 200" using adminLogin_200 by blast
qed

theorem token_payload_and_lifetime_witness:
  "status (fst (signup demo_env demo_world (request_of bob_body))) = 201
   \<and> tokens_in (json (fst (signup demo_env demo_world (request_of bob_body)))) \<noteq> []
   \<and> list_all (\<lambda>t. tok_payload t = [(''userId'', ''65f0c0ffee0000000000beef'')]
                    \<and> tok_iat t = 1700000000 \<and> tok_exp t - tok_iat t = 2592000)
        (tokens_in (json (fst (signup demo_env demo_world (request_of bob_body)))))
   \<and> status (fst (login demo_env demo_world (request_of alice_login))) = 200
   \<and> tokens_in (json (fst (login demo_env demo_world (request_of alice_login)))) \<noteq> []
   \<and> list_all (\<lambda>t. tok_payload t = [(''userId'', ''65f0c0ffee0000000000a11c'')]
                    \<and> tok_iat t = 1700000000 \<and> tok_exp t - tok_iat t = 2592000)
        (tokens_in (json (fst (login demo_env demo_world (request_of alice_login)))))
   \<and> status (adminLogin demo_env (request_of admin_login)) = 200
   \<and> tokens_in (json (adminLogin demo_env (request_of admin_login))) \<noteq> []
   \<and> list_all (\<lambda>t. tok_payload t = [(''userId'', ''admin''), (''email'', ''admin@example.com''),
                                        (''role'', ''admin'')]
                    \<and> tok_iat t = 1700000000 \<and> tok_exp t - tok_iat t = 86400)
        (tokens_in (json (adminLogin demo_env (request_of admin_login))))"
proof -
  note signup_facts = token_payload_and_lifetime [of demo_env demo_world "request_of bob_body"]
  note login_facts = token_payload_and_lifetime [of demo_env demo_world "request_of alice_login"]
  note admin_facts = token_payload_and_lifetime [of demo_env demo_world "request_of admin_login"]
  have secret: "\<not> falsy (JWT_SECRET demo_env)" by (simp add: demo_env_def falsy_def)
  have clock: "now demo_env div 1000 = 1700000000" by (simp add: demo_env_def)
  have s1: "picture_step_passes demo_env demo_world (request_of bob_body)"
    by (simp add: picture_step_passes_def request_of_def)
  have s2: "findOne_email (users demo_world) (b_email (req_body (request_of bob_body))) = None"
    by code_simp
  have s3: "phone_step_passes demo_world (req_body (request_of bob_body))"
    by (simp add: phone_step_passes_def request_of_def bob_body_def empty_body_def)
  have s4: "b_password (req_body (request_of bob_body)) = Some ''secret''"
    by (simp add: request_of_def bob_body_def)
  have s5: "invalid_paths (now demo_env) (signup_document demo_env (request_of bob_body) ''secret'')
            = []"
    by code_simp
  from signup_facts s1 s2 s3 s4 s5 secret
  have a1: "status (fst (signup demo_env demo_world (request_of bob_body))) = 201" by blast
  with signup_facts
  have a2: "tokens_in (json (fst (signup demo_env demo_world (request_of bob_body)))) \<noteq> []"
    by blast
  have a3: "list_all (\<lambda>t. tok_payload t = [(''userId'', ''65f0c0ffee0000000000beef'')]
                    \<and> tok_iat t = 1700000000 \<and> tok_exp t - tok_iat t = 2592000)
        (tokens_in (json (fst (signup demo_env demo_world (request_of bob_body)))))"
    unfolding list_all_iff
  proof (rule ballI)
    fix t assume "t \<in> set (tokens_in (json (fst (signup demo_env demo_world (request_of bob_body)))))"
    with signup_facts obtain u :: user where "uid u = new_object_id demo_env"
      "tok_payload t = [(''userId'', uid u)]" "tok_iat t = now demo_env div 1000"
      "tok_exp t = tok_iat t + 30 * 24 * 60 * 60" by blast
    then show "tok_payload t = [(''userId'', ''65f0c0ffee0000000000beef'')]
                    \<and> tok_iat t = 1700000000 \<and> tok_exp t - tok_iat t = 2592000"
      by (simp add: demo_env_def)
  qed
  have l1: "findOne_email (users demo_world) (b_email (req_body (request_of alice_login)))
            = Some alice"
    by code_simp
  have l2: "isActive alice" "password alice = Some (demo_hash ''wonderland'')"
    "uid alice = ''65f0c0ffee0000000000a11c''"
    by (simp_all add: alice_def blank_user_def)
  have l3: "b_password (req_body (request_of alice_login)) = Some ''wonderland''"
    "\<not> falsy (b_email (req_body (request_of alice_login)))"
    by (simp_all add: request_of_def alice_login_def falsy_def)
  have l4: "bcrypt_compare demo_env ''wonderland'' (demo_hash ''wonderland'')"
    by (simp add: demo_env_def)
  have l5: "''wonderland'' \<noteq> []" by simp
  from login_facts l1 l2 l3 l4 l5 secret
  have b1: "status (fst (login demo_env demo_world (request_of alice_login))) = 200" by blast
  with login_facts
  have b2: "tokens_in (json (fst (login demo_env demo_world (request_of alice_login)))) \<noteq> []"
    by blast
  have b3: "list_all (\<lambda>t. tok_payload t = [(''userId'', ''65f0c0ffee0000000000a11c'')]
                    \<and> tok_iat t = 1700000000 \<and> tok_exp t - tok_iat t = 2592000)
        (tokens_in (json (fst (login demo_env demo_world (request_of alice_login)))))"
    unfolding list_all_iff
  proof (rule ballI)
    fix t assume "t \<in> set (tokens_in (json (fst (login demo_env demo_world (request_of alice_login)))))"
    with login_facts obtain u where
      "findOne_email (users demo_world) (b_email (req_body (request_of alice_login))) = Some u"
      "tok_payload t = [(''userId'', uid u)]" "tok_iat t = now demo_env div 1000"
      "tok_exp t = tok_iat t + 30 * 24 * 60 * 60" by blast
    with l1 l2(3) clock show "tok_payload t = [(''userId'', ''65f0c0ffee0000000000a11c'')]
                    \<and> tok_iat t = 1700000000 \<and> tok_exp t - tok_iat t = 2592000"
      by simp
  qed
  have c1: "ADMIN_EMAIL demo_env = Some ''admin@example.com''"
    "ADMIN_PASSWORD demo_env = Some ''admin-pass''"
    "b_email (req_body (request_of admin_login)) = Some ''admin@example.com''"
    "b_password (req_body (request_of admin_login)) = Some ''admin-pass''"
    by (simp_all add: demo_env_def request_of_def admin_login_def)
  have c2: "''admin@example.com'' \<noteq> []" "''admin-pass'' \<noteq> []" by simp_all
  from admin_facts c1 c2 secret
  have d1: "status (adminLogin demo_env (request_of admin_login)) = 200" by blast
  with admin_facts
  have d2: "tokens_in (json (adminLogin demo_env (request_of admin_login))) \<noteq> []" by blast
  have d3: "list_all (\<lambda>t. tok_payload t = [(''userId'', ''admin''), (''email'', ''admin@example.com''),
                                        (''role'', ''admin'')]
                    \<and> tok_iat t = 1700000000 \<and> tok_exp t - tok_iat t = 86400)
        (tokens_in (json (adminLogin demo_env (request_of admin_login))))"
    unfolding list_all_iff
  proof (rule ballI)
    fix t assume "t \<in> set (tokens_in (json (adminLogin demo_env (request_of admin_login))))"
    with admin_facts obtain a where "ADMIN_EMAIL demo_env = Some a"
      "tok_payload t = [(''userId'', ''admin''), (''email'', a), (''role'', ''admin'')]"
      "tok_iat t = now demo_env div 1000" "tok_exp t = tok_iat t + 24 * 60 * 60" by blast
    with c1(1) clock show "tok_payload t = [(''userId'', ''admin''), (''email'', ''admin@example.com''),
                                        (''role'', ''admin'')]
                    \<and> tok_iat t = 1700000000 \<and> tok_exp t - tok_iat t = 86400"
      by simp
  qed
  show ?thesis
    by (rule conjI [OF a1 conjI [OF a2 conjI [OF a3 conjI [OF b1 conjI [OF b2 conjI [OF b3
          conjI [OF d1 conjI [OF d2 d3]]]]]]]])
qed

section \<open>C8: no password in a response\<close>

text \<open>
  Claim C8. No response of signup or login has a \<open>password\<close> key anywhere in its body. The
  body of a 201 of signup is \<open>{success, message, data: {user, token}}\<close> where \<open>user\<close> is the
  public profile of the document just appended to the store, whose \<open>password\<close> is the hash of
  the password sent; the body of a 200 of login is the same with the public profile of the
  stored user found by email, as written back to the store, whose \<open>password\<close> is the hash the
  password sent was compared with. In both the profile has no \<open>password\<close> field and the token
  carries the user id only. The hash is not serialised under another name either: the public
  profile is the same whatever the \<open>password\<close> of the document; the response of a signup
  (successful or not) is the same whatever the hash function, as long as its results pass
  the length check of the schema; and the response of a login (successful or not) is the
  same when every stored hash is replaced by another that \<open>bcrypt.compare\<close> treats alike.
  Both handlers do succeed: signup for a request that gets past the picture and phone blocks
  with an unregistered email, a password and a document the schema accepts; login for an
  active stored user whose hash matches the non-empty password sent; each with the signing
  secret set.
\<close>

theorem responses_carry_no_password:
  "''password'' \<notin> set (keys_in (json (fst (signup e w rq))))
   \<and> ''password'' \<notin> set (keys_in (json (fst (login e w rq))))
   \<and> (status (fst (signup e w rq)) = 201 \<longrightarrow>
        (\<exists>u pw t. b_password (req_body rq) = Some pw
              \<and> users (snd (signup e w rq)) = users w @ [u]
              \<and> password u = Some (bcrypt_hash e pw)
              \<and> json (fst (signup e w rq))
                  = JObj [(''success'', JBool True),
                          (''message'', JStr ''User registered successfully''),
                          (''data'', JObj [(''user'', getPublicProfile u), (''token'', JTok t)])]
              \<and> tok_payload t = [(''userId'', uid u)]
              \<and> field ''password'' (getPublicProfile u) = None))
   \<and> (status (fst (login e w rq)) = 200 \<longrightarrow>
        (\<exists>found u pw h t. findOne_email (users w) (b_email (req_body rq)) = Some found
              \<and> b_password (req_body rq) = Some pw
              \<and> password found = Some h \<and> bcrypt_compare e pw h
              \<and> u = found\<lparr>lastLoginAt := Some (now e), updatedAt := now e\<rparr>
              \<and> u \<in> set (users (snd (login e w rq)))
              \<and> password u = Some h
              \<and> json (fst (login e w rq))
                  = JObj [(''success'', JBool True), (''message'', JStr ''Login successful''),
                          (''data'', JObj [(''user'', getPublicProfile u), (''token'', JTok t)])]
              \<and> tok_payload t = [(''userId'', uid u)]
              \<and> field ''password'' (getPublicProfile u) = None))
   \<and> (\<forall>u p. getPublicProfile (u\<lparr>password := p\<rparr>) = getPublicProfile u)
   \<and> (\<forall>h. (\<forall>pw. b_password (req_body rq) = Some pw \<longrightarrow>
                  6 \<le> length (bcrypt_hash e pw) \<and> 6 \<le> length (h pw))
          \<longrightarrow> fst (signup (e\<lparr>bcrypt_hash := h\<rparr>) w rq) = fst (signup e w rq))
   \<and> (\<forall>f cmp. (\<forall>p h. cmp p (f h) = bcrypt_compare e p h)
          \<longrightarrow> fst (login (e\<lparr>bcrypt_compare := cmp\<rparr>)
                     (w\<lparr>users := map (\<lambda>u. u\<lparr>password := map_option f (password u)\<rparr>) (users w)\<rparr>)
                     rq)
              = fst (login e w rq))
   \<and> (picture_step_passes e w rq
        \<and> findOne_email (users w) (b_email (req_body rq)) = None
        \<and> phone_step_passes w (req_body rq)
        \<and> (\<exists>pw. b_password (req_body rq) = Some pw
                 \<and> invalid_paths (now e) (signup_document e rq pw) = [])
        \<and> \<not> falsy (JWT_SECRET e)
        \<longrightarrow> status (fst (signup e w rq)) = 201)
   \<and> ((\<exists>found pw h. findOne_email (users w) (b_email (req_body rq)) = Some found
             \<and> isActive found \<and> password found = Some h
             \<and> b_password (req_body rq) = Some pw \<and> pw \<noteq> [] \<and> bcrypt_compare e pw h)
        \<and> \<not> falsy (b_email (req_body rq)) \<and> \<not> falsy (JWT_SECRET e)
        \<longrightarrow> status (fst (login e w rq)) = 200)"
proof -
  obtain r w' where s: "signup e w rq = (r, w')" by (cases "signup e w rq")
  obtain q v' where l: "login e w rq = (q, v')" by (cases "login e w rq")
  have k1: "''password'' \<notin> set (keys_in (json (fst (signup e w rq))))"
    using signup_shape [OF s] s by (auto simp: error_response_def session_response_facts)
  have k2: "''password'' \<notin> set (keys_in (json (fst (login e w rq))))"
    using login_shape [OF l] l by (auto simp: error_response_def session_response_facts)
  note b1 = signup_201_body [of e w rq]
  note b2 = login_200_body [of e w rq]
  have i1: "\<forall>u p. getPublicProfile (u\<lparr>password := p\<rparr>) = getPublicProfile u"
    by (simp add: getPublicProfile_password)
  have i2: "\<forall>h. (\<forall>pw. b_password (req_body rq) = Some pw \<longrightarrow>
                  6 \<le> length (bcrypt_hash e pw) \<and> 6 \<le> length (h pw))
          \<longrightarrow> fst (signup (e\<lparr>bcrypt_hash := h\<rparr>) w rq) = fst (signup e w rq)"
    using signup_hash by blast
  have i3: "\<forall>f cmp. (\<forall>p h. cmp p (f h) = bcrypt_compare e p h)
          \<longrightarrow> fst (login (e\<lparr>bcrypt_compare := cmp\<rparr>)
                     (w\<lparr>users := map (\<lambda>u. u\<lparr>password := map_option f (password u)\<rparr>) (users w)\<rparr>)
                     rq)
              = fst (login e w rq)"
    using login_rehash by blast
  have n1: "picture_step_passes e w rq
        \<and> findOne_email (users w) (b_email (req_body rq)) = None
        \<and> phone_step_passes w (req_body rq)
        \<and> (\<exists>pw. b_password (req_body rq) = Some pw
                 \<and> invalid_paths (now e) (signup_document e rq pw) = [])
        \<and> \<not> falsy (JWT_SECRET e)
        \<longrightarrow> status (fst (signup e w rq)) = 201"
    using signup_201 by blast
  have n2: "(\<exists>found pw h. findOne_email (users w) (b_email (req_body rq)) = Some found
             \<and> isActive found \<and> password found = Some h
             \<and> b_password (req_body rq) = Some pw \<and> pw \<noteq> [] \<and> bcrypt_compare e pw h)
        \<and> \<not> falsy (b_email (req_body rq)) \<and> \<not> falsy (JWT_SECRET e)
        \<longrightarrow> status (fst (login e w rq)) = 200"
    using login_200 by blast
  show ?thesis
    by (rule conjI [OF k1 conjI [OF k2 conjI [OF impI [OF b1] conjI [OF impI [OF b2]
          conjI [OF i1 conjI [OF i2 conjI [OF i3 conjI [OF n1 n2]]]]]]]])
qed

theorem responses_carry_no_password_witness:
  "status (fst (signup demo_env demo_world (request_of bob_body))) = 201
   \<and> ''password'' \<notin> set (keys_in (json (fst (signup demo_env demo_world (request_of bob_body)))))
   \<and> (\<exists>u t. users (snd (signup demo_env demo_world (request_of bob_body)))
                 = users demo_world @ [u]
            \<and> password u = Some (demo_hash ''secret'')
            \<and> json (fst (signup demo_env demo_world (request_of bob_body)))
                = JObj [(''success'', JBool True),
                        (''message'', JStr ''User registered successfully''),
                        (''data'', JObj [(''user'', getPublicProfile u), (''token'', JTok t)])]
            \<and> field ''password'' (getPublicProfile u) = None)
   \<and> status (fst (login demo_env demo_world (request_of alice_login))) = 200
   \<and> ''password'' \<notin> set (keys_in (json (fst (login demo_env demo_world (request_of alice_login)))))
   \<and> (\<exists>u t. u \<in> set (users (snd (login demo_env demo_world (request_of alice_login))))
            \<and> uid u = ''65f0c0ffee0000000000a11c''
            \<and> password u = Some (demo_hash ''wonderland'')
            \<and> json (fst (login demo_env demo_world (request_of alice_login)))
                = JObj [(''success'', JBool True), (''message'', JStr ''Login successful''),
                        (''data'', JObj [(''user'', getPublicProfile u), (''token'', JTok t)])]
            \<and> field ''password'' (getPublicProfile u) = None)
   \<and> fst (signup (demo_env\<lparr>bcrypt_hash := (\<lambda>p. rev (demo_hash p))\<rparr>) demo_world
             (request_of bob_body))
       = fst (signup demo_env demo_world (request_of bob_body))
   \<and> fst (login (demo_env\<lparr>bcrypt_compare := (\<lambda>p h. demo_hash p = rev h)\<rparr>)
             (demo_world\<lparr>users := map (\<lambda>u. u\<lparr>password := map_option rev (password u)\<rparr>)
                                      (users demo_world)\<rparr>)
             (request_of alice_login))
       = fst (login demo_env demo_world (request_of alice_login))"
proof -
  note signup_facts = responses_carry_no_password [of demo_env demo_world "request_of bob_body"]
  note login_facts = responses_carry_no_password [of demo_env demo_world "request_of alice_login"]
  note signup_body = signup_facts [THEN conjunct2, THEN conjunct2, THEN conjunct1]
  note signup_hash_free = signup_facts [THEN conjunct2, THEN conjunct2, THEN conjunct2,
      THEN conjunct2, THEN conjunct2, THEN conjunct1]
  note signup_status = signup_facts [THEN conjunct2, THEN conjunct2, THEN conjunct2,
      THEN conjunct2, THEN conjunct2, THEN conjunct2, THEN conjunct2, THEN conjunct1]
  note login_keys = login_facts [THEN conjunct2, THEN conjunct1]
  note login_body = login_facts [THEN conjunct2, THEN conjunct2, THEN conjunct2, THEN conjunct1]
  note login_hash_free = login_facts [THEN conjunct2, THEN conjunct2, THEN conjunct2,
      THEN conjunct2, THEN conjunct2, THEN conjunct2, THEN conjunct1]
  note login_status = login_facts [THEN conjunct2, THEN conjunct2, THEN conjunct2,
      THEN conjunct2, THEN conjunct2, THEN conjunct2, THEN conjunct2, THEN conjunct2]
  have secret: "\<not> falsy (JWT_SECRET demo_env)" by (simp add: demo_env_def falsy_def)
  have s1: "picture_step_passes demo_env demo_world (request_of bob_body)"
    by (simp add: picture_step_passes_def request_of_def)
  have s2: "findOne_email (users demo_world) (b_email (req_body (request_of bob_body))) = None"
    by code_simp
  have s3: "phone_step_passes demo_world (req_body (request_of bob_body))"
    by (simp add: phone_step_passes_def request_of_def bob_body_def empty_body_def)
  have s4: "b_password (req_body (request_of bob_body)) = Some ''secret''"
    by (simp add: request_of_def bob_body_def)
  have s5: "invalid_paths (now demo_env) (signup_document demo_env (request_of bob_body) ''secret'')
            = []"
    by code_simp
  have s6: "bcrypt_hash demo_env = demo_hash" by (simp add: demo_env_def)
  from signup_status s1 s2 s3 s4 s5 secret
  have a1: "status (fst (signup demo_env demo_world (request_of bob_body))) = 201" by blast
  from signup_facts
  have a2: "''password'' \<notin> set (keys_in (json (fst (signup demo_env demo_world (request_of bob_body)))))"
    by (rule conjunct1)
  from signup_body a1 obtain u pw t where
    "b_password (req_body (request_of bob_body)) = Some pw"
    "users (snd (signup demo_env demo_world (request_of bob_body))) = users demo_world @ [u]"
    "password u = Some (bcrypt_hash demo_env pw)"
    "json (fst (signup demo_env demo_world (request_of bob_body)))
                = JObj [(''success'', JBool True),
                        (''message'', JStr ''User registered successfully''),
                        (''data'', JObj [(''user'', getPublicProfile u), (''token'', JTok t)])]"
    "field ''password'' (getPublicProfile u) = None" by blast
  with s4 s6
  have a3: "\<exists>u t. users (snd (signup demo_env demo_world (request_of bob_body)))
                 = users demo_world @ [u]
            \<and> password u = Some (demo_hash ''secret'')
            \<and> json (fst (signup demo_env demo_world (request_of bob_body)))
                = JObj [(''success'', JBool True),
                        (''message'', JStr ''User registered successfully''),
                        (''data'', JObj [(''user'', getPublicProfile u), (''token'', JTok t)])]
            \<and> field ''password'' (getPublicProfile u) = None"
    by auto
  have l1: "findOne_email (users demo_world) (b_email (req_body (request_of alice_login)))
            = Some alice"
    by code_simp
  have l2: "isActive alice" "password alice = Some (demo_hash ''wonderland'')"
    "uid alice = ''65f0c0ffee0000000000a11c''"
    by (simp_all add: alice_def blank_user_def)
  have l3: "b_password (req_body (request_of alice_login)) = Some ''wonderland''"
    "\<not> falsy (b_email (req_body (request_of alice_login)))"
    by (simp_all add: request_of_def alice_login_def falsy_def)
  have l4: "bcrypt_compare demo_env ''wonderland'' (demo_hash ''wonderland'')"
    by (simp add: demo_env_def)
  have l5: "''wonderland'' \<noteq> []" by simp
  from login_status l1 l2 l3 l4 l5 secret
  have b1: "status (fst (login demo_env demo_world (request_of alice_login))) = 200" by blast
  note b2 = login_keys
  from login_body b1 obtain found u h t where
    "findOne_email (users demo_world) (b_email (req_body (request_of alice_login))) = Some found"
    "password found = Some h"
    "u = found\<lparr>lastLoginAt := Some (now demo_env), updatedAt := now demo_env\<rparr>"
    "u \<in> set (users (snd (login demo_env demo_world (request_of alice_login))))"
    "password u = Some h"
    "json (fst (login demo_env demo_world (request_of alice_login)))
                = JObj [(''success'', JBool True), (''message'', JStr ''Login successful''),
                        (''data'', JObj [(''user'', getPublicProfile u), (''token'', JTok t)])]"
    "field ''password'' (getPublicProfile u) = None" by blast
  with l1 l2
  have b3: "\<exists>u t. u \<in> set (users (snd (login demo_env demo_world (request_of alice_login))))
            \<and> uid u = ''65f0c0ffee0000000000a11c''
            \<and> password u = Some (demo_hash ''wonderland'')
            \<and> json (fst (login demo_env demo_world (request_of alice_login)))
                = JObj [(''success'', JBool True), (''message'', JStr ''Login successful''),
                        (''data'', JObj [(''user'', getPublicProfile u), (''token'', JTok t)])]
            \<and> field ''password'' (getPublicProfile u) = None"
    by auto
  have h1: "\<forall>pw. b_password (req_body (request_of bob_body)) = Some pw \<longrightarrow>
              6 \<le> length (bcrypt_hash demo_env pw) \<and> 6 \<le> length (rev (demo_hash pw))"
    by (simp add: demo_env_def demo_hash_def)
  from signup_hash_free [rule_format, of "\<lambda>p. rev (demo_hash p)"] h1
  have c1: "fst (signup (demo_env\<lparr>bcrypt_hash := (\<lambda>p. rev (demo_hash p))\<rparr>) demo_world
             (request_of bob_body))
       = fst (signup demo_env demo_world (request_of bob_body))"
    by blast
  have h2: "\<forall>p h. (demo_hash p = rev (rev h)) = bcrypt_compare demo_env p h"
    by (simp add: demo_env_def)
  from login_hash_free [rule_format, of "\<lambda>p h. demo_hash p = rev h" rev] h2
  have c2: "fst (login (demo_env\<lparr>bcrypt_compare := (\<lambda>p h. demo_hash p = rev h)\<rparr>)
             (demo_world\<lparr>users := map (\<lambda>u. u\<lparr>password := map_option rev (password u)\<rparr>)
                                      (users demo_world)\<rparr>)
             (request_of alice_login))
       = fst (login demo_env demo_world (request_of alice_login))"
    by blast
  show ?thesis
    by (rule conjI [OF a1 conjI [OF a2 conjI [OF a3 conjI [OF b1 conjI [OF b2 conjI [OF b3
          conjI [OF c1 c2]]]]]]])
qed

end
